theory Spec2Isabelle
  imports Complex_Main "HOL-Library.AList" "HOL-Library.Product_Lexorder"
begin

section \<open>Data model (usage/types.py, usage/config.py)\<close>

text \<open>
  Conventions of the embedding.
  \<^item> Python \<open>float\<close> timestamps, durations, costs and weights are modelled as \<open>real\<close>,
    with exact arithmetic; Python \<open>int\<close> as \<open>int\<close>.
  \<^item> Every function that reads \<open>time.time()\<close> takes the clock value as a parameter \<open>now\<close>;
    one top-level call reads one clock value.
  \<^item> A Python \<open>dict\<close> that the code iterates over is an association list in insertion
    order (\<open>map_of\<close> reads, \<open>AList.update\<close> writes: an existing key keeps its position);
    a \<open>dict\<close> that is only looked up is a map.
  \<^item> Objects mutated in place are returned updated.
  \<^item> The formatted \<open>reason\<close> strings of a limit result are kept as structured values
    carrying the interpolated data.
\<close>

definition FAIR_CYCLE_GLOBAL_KEY :: string where
  "FAIR_CYCLE_GLOBAL_KEY = ''_credential_''"

datatype ResetMode = ROLLING | FIXED_DAILY | CALENDAR_WEEKLY | CALENDAR_MONTHLY | API_AUTHORITATIVE

datatype LimitResult =
  ALLOWED | BLOCKED_WINDOW | BLOCKED_COOLDOWN | BLOCKED_FAIR_CYCLE | BLOCKED_CUSTOM_CAP
  | BLOCKED_CONCURRENT

datatype RotationMode = BALANCED | SEQUENTIAL

datatype TrackingMode = MODEL_GROUP | CREDENTIAL

datatype CooldownMode = QUOTA_RESET | CD_OFFSET | CD_FIXED

datatype CapMode = ABSOLUTE | OFFSET | PERCENTAGE

record WindowStats =
  name :: string
  request_count :: int
  success_count :: int
  failure_count :: int
  prompt_tokens :: int
  completion_tokens :: int
  thinking_tokens :: int
  output_tokens :: int
  prompt_tokens_cache_read :: int
  prompt_tokens_cache_write :: int
  total_tokens :: int
  approx_cost :: real
  started_at :: "real option"
  reset_at :: "real option"
  limit :: "int option"
  max_recorded_requests :: "int option"
  max_recorded_at :: "real option"
  first_used_at :: "real option"
  last_used_at :: "real option"

text \<open>The dataclass constructor \<open>WindowStats(name=...)\<close> with every default.\<close>

definition WindowStats_new :: "string \<Rightarrow> WindowStats" where
  "WindowStats_new n =
     \<lparr>name = n, request_count = 0, success_count = 0, failure_count = 0,
      prompt_tokens = 0, completion_tokens = 0, thinking_tokens = 0, output_tokens = 0,
      prompt_tokens_cache_read = 0, prompt_tokens_cache_write = 0, total_tokens = 0,
      approx_cost = 0, started_at = None, reset_at = None, limit = None,
      max_recorded_requests = None, max_recorded_at = None,
      first_used_at = None, last_used_at = None\<rparr>"

record TotalStats =
  tot_request_count :: int
  tot_success_count :: int
  tot_failure_count :: int
  tot_prompt_tokens :: int
  tot_completion_tokens :: int
  tot_thinking_tokens :: int
  tot_output_tokens :: int
  tot_prompt_tokens_cache_read :: int
  tot_prompt_tokens_cache_write :: int
  tot_total_tokens :: int
  tot_approx_cost :: real
  tot_first_used_at :: "real option"
  tot_last_used_at :: "real option"

definition TotalStats_new :: TotalStats where
  "TotalStats_new =
     \<lparr>tot_request_count = 0, tot_success_count = 0, tot_failure_count = 0,
      tot_prompt_tokens = 0, tot_completion_tokens = 0, tot_thinking_tokens = 0,
      tot_output_tokens = 0, tot_prompt_tokens_cache_read = 0,
      tot_prompt_tokens_cache_write = 0, tot_total_tokens = 0, tot_approx_cost = 0,
      tot_first_used_at = None, tot_last_used_at = None\<rparr>"

type_synonym windows_dict = "(string \<times> WindowStats) list"

text \<open>\<open>ModelStats\<close> and \<open>GroupStats\<close> are two dataclasses with the same two fields.\<close>

record ModelStats =
  windows :: windows_dict
  totals :: TotalStats

type_synonym GroupStats = ModelStats

definition ModelStats_new :: ModelStats where
  "ModelStats_new = \<lparr>windows = [], totals = TotalStats_new\<rparr>"

record CooldownInfo =
  cd_reason :: string
  cd_until :: real
  cd_started_at :: real
  cd_source :: string
  cd_model_or_group :: "string option"
  cd_backoff_count :: int

text \<open>\<open>CooldownInfo.is_active\<close> and \<open>CooldownInfo.remaining_seconds\<close>.\<close>

definition is_active :: "CooldownInfo \<Rightarrow> real \<Rightarrow> bool" where
  "is_active c now = (now < cd_until c)"

definition remaining_seconds :: "CooldownInfo \<Rightarrow> real \<Rightarrow> real" where
  "remaining_seconds c now = max 0 (cd_until c - now)"

record FairCycleState =
  fc_exhausted :: bool
  fc_exhausted_at :: "real option"
  fc_exhausted_reason :: "string option"
  cycle_request_count :: int
  fc_model_or_group :: "string option"

definition FairCycleState_new :: "string option \<Rightarrow> FairCycleState" where
  "FairCycleState_new k =
     \<lparr>fc_exhausted = False, fc_exhausted_at = None, fc_exhausted_reason = None,
      cycle_request_count = 0, fc_model_or_group = k\<rparr>"

record GlobalFairCycleState =
  cycle_start :: real
  all_exhausted_at :: "real option"
  cycle_count :: int

record UsageUpdate =
  u_request_count :: int
  success :: bool
  u_prompt_tokens :: int
  u_completion_tokens :: int
  u_thinking_tokens :: int
  u_prompt_tokens_cache_read :: int
  u_prompt_tokens_cache_write :: int
  u_approx_cost :: real

record WindowDefinition =
  wd_name :: string
  duration_seconds :: "int option"
  reset_mode :: ResetMode
  is_primary :: bool
  applies_to :: string

record FairCycleConfig =
  enabled :: "bool option"
  tracking_mode :: TrackingMode
  cross_tier :: bool
  duration :: int
  quota_threshold :: real
  reset_cooldown_threshold :: int

record CustomCapConfig =
  tier_key :: string
  cap_model_or_group :: string
  max_requests :: int
  max_requests_mode :: CapMode
  cooldown_mode :: CooldownMode
  cooldown_value :: int

record ProviderUsageConfig =
  rotation_mode :: RotationMode
  rotation_tolerance :: real
  fair_cycle_cfg :: FairCycleConfig
  custom_caps :: "CustomCapConfig list"
  exhaustion_cooldown_threshold :: int
  window_limits_enabled :: bool
  cfg_windows :: "WindowDefinition list"

record CredentialState =
  stable_id :: string
  provider :: string
  accessor :: string
  priority :: int
  window_definitions :: "WindowDefinition list"
  model_usage :: "string \<rightharpoonup> ModelStats"
  group_usage :: "string \<rightharpoonup> GroupStats"
  cred_totals :: TotalStats
  cooldowns :: "string \<rightharpoonup> CooldownInfo"
  fair_cycle :: "string \<rightharpoonup> FairCycleState"
  active_requests :: int
  max_concurrent :: "int option"
  last_updated :: "real option"

text \<open>
  \<open>CredentialState(stable_id, provider, accessor)\<close> with every default. The fields
  \<open>display_name\<close>, \<open>tier\<close> and \<open>created_at\<close> are read by no function embedded here
  and are left out.
\<close>

definition CredentialState_new :: "string \<Rightarrow> string \<Rightarrow> string \<Rightarrow> CredentialState" where
  "CredentialState_new sid prov acc =
     \<lparr>stable_id = sid, provider = prov, accessor = acc, priority = 999,
      window_definitions = [], model_usage = Map.empty, group_usage = Map.empty,
      cred_totals = TotalStats_new, cooldowns = Map.empty, fair_cycle = Map.empty,
      active_requests = 0, max_concurrent = None, last_updated = None\<rparr>"

text \<open>\<open>CredentialState.is_fair_cycle_exhausted\<close>.\<close>

definition is_fair_cycle_exhausted :: "CredentialState \<Rightarrow> string \<Rightarrow> bool" where
  "is_fair_cycle_exhausted st k =
     (case fair_cycle st k of None \<Rightarrow> False | Some fc \<Rightarrow> fc_exhausted fc)"

datatype reason_text =
  AtMaxConcurrent int int
  | CooldownFor string string real
  | GlobalCooldown string real
  | WindowExhausted string int int
  | CustomCapExceeded string string int int
  | FairCycleWaiting string

record LimitCheckResult =
  allowed :: bool
  result :: LimitResult
  reason :: "reason_text option"
  blocked_until :: "real option"

definition ok :: LimitCheckResult where
  "ok = \<lparr>allowed = True, result = ALLOWED, reason = None, blocked_until = None\<rparr>"

definition blocked :: "LimitResult \<Rightarrow> reason_text \<Rightarrow> real option \<Rightarrow> LimitCheckResult" where
  "blocked res rsn until =
     \<lparr>allowed = False, result = res, reason = Some rsn, blocked_until = until\<rparr>"

section \<open>Window manager (usage/tracking/windows.py)\<close>

text \<open>
  The calendar tests of the window manager go through Python's \<open>datetime\<close> library
  (UTC calendar fields of a timestamp). That library is not part of the repository, so
  the six calendar functions are parameters of the manager; the rolling and the
  API-authoritative modes are embedded in full.
\<close>

record WindowManager =
  definitions :: "(string \<times> WindowDefinition) list"
  past_daily_reset :: "real \<Rightarrow> real \<Rightarrow> bool"
  past_weekly_reset :: "real \<Rightarrow> real \<Rightarrow> bool"
  past_monthly_reset :: "real \<Rightarrow> real \<Rightarrow> bool"
  next_daily_reset :: "real \<Rightarrow> real"
  next_weekly_reset :: "real \<Rightarrow> real"
  next_monthly_reset :: "real \<Rightarrow> real"

text \<open>\<open>{w.name: w for w in window_definitions}\<close>.\<close>

definition definitions_of :: "WindowDefinition list \<Rightarrow> (string \<times> WindowDefinition) list" where
  "definitions_of ds = foldl (\<lambda>al d. AList.update (wd_name d) d al) [] ds"

definition should_reset :: "WindowManager \<Rightarrow> WindowStats \<Rightarrow> WindowDefinition \<Rightarrow> real \<Rightarrow> bool" where
  "should_reset wm window definition now =
     (case reset_at window of
        Some r \<Rightarrow> now \<ge> r
      | None \<Rightarrow>
          (case started_at window of
             None \<Rightarrow> False
           | Some s \<Rightarrow>
               (case reset_mode definition of
                  ROLLING \<Rightarrow>
                    (case duration_seconds definition of
                       None \<Rightarrow> False
                     | Some d \<Rightarrow> now \<ge> s + real_of_int d)
                | FIXED_DAILY \<Rightarrow> past_daily_reset wm s now
                | CALENDAR_WEEKLY \<Rightarrow> past_weekly_reset wm s now
                | CALENDAR_MONTHLY \<Rightarrow> past_monthly_reset wm s now
                | API_AUTHORITATIVE \<Rightarrow> False)))"

definition calculate_reset_time :: "WindowManager \<Rightarrow> WindowDefinition \<Rightarrow> real \<Rightarrow> real option" where
  "calculate_reset_time wm definition start_time =
     (case reset_mode definition of
        ROLLING \<Rightarrow>
          (case duration_seconds definition of
             None \<Rightarrow> None
           | Some d \<Rightarrow> Some (start_time + real_of_int d))
      | FIXED_DAILY \<Rightarrow> Some (next_daily_reset wm start_time)
      | CALENDAR_WEEKLY \<Rightarrow> Some (next_weekly_reset wm start_time)
      | CALENDAR_MONTHLY \<Rightarrow> Some (next_monthly_reset wm start_time)
      | API_AUTHORITATIVE \<Rightarrow> None)"

definition get_active_window :: "WindowManager \<Rightarrow> windows_dict \<Rightarrow> string \<Rightarrow> real \<Rightarrow> WindowStats option" where
  "get_active_window wm ws window_name now =
     (case map_of ws window_name of
        None \<Rightarrow> None
      | Some window \<Rightarrow>
          (case map_of (definitions wm) window_name of
             None \<Rightarrow> Some window
           | Some definition \<Rightarrow>
               if should_reset wm window definition now then None else Some window))"

text \<open>
  \<open>limit or old_limit\<close>: Python's \<open>or\<close> takes the right operand when the left one is
  \<open>None\<close> or \<open>0\<close>.
\<close>

definition int_or :: "int option \<Rightarrow> int option \<Rightarrow> int option" where
  "int_or a b = (case a of None \<Rightarrow> b | Some x \<Rightarrow> if x = 0 then b else Some x)"

definition real_or :: "real option \<Rightarrow> real \<Rightarrow> real" where
  "real_or a b = (case a of None \<Rightarrow> b | Some x \<Rightarrow> if x = 0 then b else x)"

text \<open>
  The high-water mark carried out of an expired window: the pair
  \<open>(old_max, old_max_at)\<close> of \<open>get_or_create_window\<close>.
\<close>

definition carried_max :: "WindowStats \<Rightarrow> real \<Rightarrow> int option \<times> real option" where
  "carried_max old_window now =
     (let old_recorded_max = (case max_recorded_requests old_window of None \<Rightarrow> 0 | Some m \<Rightarrow> m)
      in if request_count old_window > old_recorded_max
         then (Some (request_count old_window), Some (real_or (last_used_at old_window) now))
         else if old_recorded_max > 0
         then (Some old_recorded_max, max_recorded_at old_window)
         else (None, None))"

text \<open>\<open>get_or_create_window\<close> returns the window and the updated \<open>windows\<close> dict.\<close>

definition get_or_create_window ::
  "WindowManager \<Rightarrow> windows_dict \<Rightarrow> string \<Rightarrow> int option \<Rightarrow> real \<Rightarrow> WindowStats \<times> windows_dict" where
  "get_or_create_window wm ws window_name lim_arg now =
     (case get_active_window wm ws window_name now of
        Some window \<Rightarrow> (window, ws)
      | None \<Rightarrow>
          (let (old_limit, old_max, old_max_at) =
                 (case map_of ws window_name of
                    None \<Rightarrow> (None, None, None)
                  | Some old_window \<Rightarrow>
                      (limit old_window, carried_max old_window now));
               new_window = (WindowStats_new window_name)
                 \<lparr>started_at := None, reset_at := None, limit := int_or lim_arg old_limit,
                  max_recorded_requests := old_max, max_recorded_at := old_max_at\<rparr>
           in (new_window, AList.update window_name new_window ws)))"

definition get_primary_definition :: "WindowManager \<Rightarrow> WindowDefinition option" where
  "get_primary_definition wm = find is_primary (map snd (definitions wm))"

text \<open>
  \<open>get_primary_window\<close> looks the first primary definition up under its dict key.
\<close>

definition get_primary_window :: "WindowManager \<Rightarrow> windows_dict \<Rightarrow> real \<Rightarrow> WindowStats option" where
  "get_primary_window wm ws now =
     (case find (\<lambda>(n, d). is_primary d) (definitions wm) of
        None \<Rightarrow> None
      | Some (n, d) \<Rightarrow> get_active_window wm ws n now)"

section \<open>Tracking engine (usage/tracking/engine.py)\<close>

text \<open>Python truthiness of an optional string, and \<open>x or default\<close> on strings.\<close>

definition truthy :: "string option \<Rightarrow> bool" where
  "truthy s = (case s of None \<Rightarrow> False | Some x \<Rightarrow> x \<noteq> [])"

definition str_or :: "string option \<Rightarrow> string \<Rightarrow> string" where
  "str_or s d = (case s of None \<Rightarrow> d | Some x \<Rightarrow> if x = [] then d else x)"

definition fc_enabled :: "FairCycleConfig \<Rightarrow> bool" where
  "fc_enabled fcfg = (enabled fcfg = Some True)"

definition resolve_fair_cycle_key :: "ProviderUsageConfig \<Rightarrow> string \<Rightarrow> string" where
  "resolve_fair_cycle_key cfg group_key =
     (if tracking_mode (fair_cycle_cfg cfg) = CREDENTIAL then FAIR_CYCLE_GLOBAL_KEY else group_key)"

definition apply_to_window ::
  "WindowManager \<Rightarrow> WindowStats \<Rightarrow> UsageUpdate \<Rightarrow> real \<Rightarrow> int \<Rightarrow> int \<Rightarrow> WindowDefinition option
   \<Rightarrow> WindowStats" where
  "apply_to_window wm window update now total_toks output_toks window_def =
     (let w1 = window
            \<lparr>request_count := request_count window + u_request_count update,
             success_count := (if success update
                               then success_count window + u_request_count update
                               else success_count window),
             failure_count := (if success update
                               then failure_count window
                               else failure_count window + u_request_count update),
             prompt_tokens := prompt_tokens window + u_prompt_tokens update,
             completion_tokens := completion_tokens window + u_completion_tokens update,
             thinking_tokens := thinking_tokens window + u_thinking_tokens update,
             output_tokens := output_tokens window + output_toks,
             prompt_tokens_cache_read :=
               prompt_tokens_cache_read window + u_prompt_tokens_cache_read update,
             prompt_tokens_cache_write :=
               prompt_tokens_cache_write window + u_prompt_tokens_cache_write update,
             total_tokens := total_tokens window + total_toks,
             approx_cost := approx_cost window + u_approx_cost update,
             last_used_at := Some now,
             first_used_at := (case first_used_at window of None \<Rightarrow> Some now | Some f \<Rightarrow> Some f)\<rparr>;
          w2 = (case started_at w1 of
                  Some s \<Rightarrow> w1
                | None \<Rightarrow>
                    (let w1' = w1\<lparr>started_at := Some now\<rparr>;
                         effective_def =
                           (case window_def of
                              Some d \<Rightarrow> Some d
                            | None \<Rightarrow> map_of (definitions wm) (name window))
                     in (case effective_def of
                           None \<Rightarrow> w1'
                         | Some d \<Rightarrow>
                             if reset_at w1' = None
                             then w1'\<lparr>reset_at := calculate_reset_time wm d now\<rparr>
                             else w1')))
      in if (case max_recorded_requests w2 of None \<Rightarrow> True | Some m \<Rightarrow> request_count w2 > m)
         then w2\<lparr>max_recorded_requests := Some (request_count w2), max_recorded_at := Some now\<rparr>
         else w2)"

text \<open>
  \<open>_apply_to_windows\<close>: the window returned by \<open>get_or_create_window\<close> is the object
  stored in the dict under its name, so mutating it updates that entry.
\<close>

definition apply_to_windows ::
  "WindowManager \<Rightarrow> ProviderUsageConfig \<Rightarrow> windows_dict \<Rightarrow> UsageUpdate \<Rightarrow> real \<Rightarrow> int \<Rightarrow> int
   \<Rightarrow> WindowDefinition list option \<Rightarrow> windows_dict" where
  "apply_to_windows wm cfg ws update now total_toks output_toks window_defs =
     (let defs = (case window_defs of
                    None \<Rightarrow> cfg_windows cfg
                  | Some ds \<Rightarrow> if ds = [] then cfg_windows cfg else ds)
      in foldl (\<lambda>ws' window_def.
                  let (window, ws1) = get_or_create_window wm ws' (wd_name window_def) None now
                  in AList.update (wd_name window_def)
                       (apply_to_window wm window update now total_toks output_toks
                          (Some window_def)) ws1)
           ws defs)"

definition apply_to_totals :: "TotalStats \<Rightarrow> UsageUpdate \<Rightarrow> real \<Rightarrow> int \<Rightarrow> int \<Rightarrow> TotalStats" where
  "apply_to_totals t update now total_toks output_toks =
     t\<lparr>tot_request_count := tot_request_count t + u_request_count update,
       tot_success_count := (if success update
                             then tot_success_count t + u_request_count update
                             else tot_success_count t),
       tot_failure_count := (if success update
                             then tot_failure_count t
                             else tot_failure_count t + u_request_count update),
       tot_prompt_tokens := tot_prompt_tokens t + u_prompt_tokens update,
       tot_completion_tokens := tot_completion_tokens t + u_completion_tokens update,
       tot_thinking_tokens := tot_thinking_tokens t + u_thinking_tokens update,
       tot_output_tokens := tot_output_tokens t + output_toks,
       tot_prompt_tokens_cache_read :=
         tot_prompt_tokens_cache_read t + u_prompt_tokens_cache_read update,
       tot_prompt_tokens_cache_write :=
         tot_prompt_tokens_cache_write t + u_prompt_tokens_cache_write update,
       tot_total_tokens := tot_total_tokens t + total_toks,
       tot_approx_cost := tot_approx_cost t + u_approx_cost update,
       tot_last_used_at := Some now,
       tot_first_used_at := (case tot_first_used_at t of None \<Rightarrow> Some now | Some f \<Rightarrow> Some f)\<rparr>"

definition sync_window_timing_from_group :: "windows_dict \<Rightarrow> windows_dict \<Rightarrow> windows_dict" where
  "sync_window_timing_from_group model_windows group_windows =
     foldl (\<lambda>mws (window_name, group_window).
              case map_of mws window_name of
                None \<Rightarrow> mws
              | Some model_window \<Rightarrow>
                  AList.update window_name
                    (model_window\<lparr>started_at := started_at group_window,
                                  reset_at := reset_at group_window\<rparr>) mws)
       model_windows group_windows"

text \<open>
  A response header as \<open>_apply_header_updates\<close> sees it: absent, present but rejected by
  \<open>int(...)\<close> / \<open>float(...)\<close> (the \<open>except\<close> branch), or present with its parsed value.
\<close>

datatype 'a header = Missing | Malformed | Parsed 'a

record Headers =
  x_ratelimit_limit :: "int header"
  x_ratelimit_reset :: "real header"

definition apply_header_updates :: "WindowStats \<Rightarrow> int header \<Rightarrow> real header \<Rightarrow> real \<Rightarrow> WindowStats" where
  "apply_header_updates window limit_h reset_h now =
     (let w1 = (case limit_h of Parsed l \<Rightarrow> window\<lparr>limit := Some l\<rparr> | _ \<Rightarrow> window)
      in (case reset_h of
            Parsed r \<Rightarrow> w1\<lparr>reset_at := Some (if r < 1000000000 then now + r else r)\<rparr>
          | _ \<Rightarrow> w1))"

definition update_primary_from_headers :: "string \<Rightarrow> Headers \<Rightarrow> real \<Rightarrow> ModelStats \<Rightarrow> ModelStats" where
  "update_primary_from_headers primary_name headers now stats =
     (case map_of (windows stats) primary_name of
        None \<Rightarrow> stats
      | Some window \<Rightarrow>
          stats\<lparr>windows := AList.update primary_name
                   (apply_header_updates window (x_ratelimit_limit headers)
                      (x_ratelimit_reset headers) now)
                   (windows stats)\<rparr>)"

definition update_from_headers ::
  "WindowManager \<Rightarrow> CredentialState \<Rightarrow> Headers \<Rightarrow> string \<Rightarrow> string option \<Rightarrow> real \<Rightarrow> CredentialState" where
  "update_from_headers wm state headers model grp now =
     (case get_primary_definition wm of
        None \<Rightarrow> state
      | Some primary_def \<Rightarrow>
          (let st1 = (case grp of
                        None \<Rightarrow> state
                      | Some g \<Rightarrow>
                          if g = [] then state
                          else (case group_usage state g of
                                  None \<Rightarrow> state
                                | Some group_stats \<Rightarrow>
                                    state\<lparr>group_usage := (group_usage state)
                                      (g \<mapsto> update_primary_from_headers (wd_name primary_def)
                                              headers now group_stats)\<rparr>))
           in (case model_usage st1 model of
                 None \<Rightarrow> st1
               | Some model_stats \<Rightarrow>
                   st1\<lparr>model_usage := (model_usage st1)
                     (model \<mapsto> update_primary_from_headers (wd_name primary_def)
                                 headers now model_stats)\<rparr>)))"

definition mark_exhausted :: "CredentialState \<Rightarrow> string \<Rightarrow> string \<Rightarrow> real \<Rightarrow> CredentialState" where
  "mark_exhausted state model_or_group rsn now =
     (let fc_state = (case fair_cycle state model_or_group of
                        None \<Rightarrow> FairCycleState_new (Some model_or_group)
                      | Some fc \<Rightarrow> fc)
      in if fc_exhausted fc_state
         then state\<lparr>fair_cycle := (fair_cycle state)(model_or_group \<mapsto> fc_state)\<rparr>
         else state\<lparr>fair_cycle := (fair_cycle state)(model_or_group \<mapsto>
                fc_state\<lparr>fc_exhausted := True, fc_exhausted_at := Some now,
                         fc_exhausted_reason := Some rsn\<rparr>)\<rparr>)"

text \<open>Steps 1 to 4 of \<open>record_usage\<close>: model, group, credential totals, fair-cycle count.\<close>

definition record_usage_stats ::
  "WindowManager \<Rightarrow> ProviderUsageConfig \<Rightarrow> CredentialState \<Rightarrow> string \<Rightarrow> UsageUpdate
   \<Rightarrow> string option \<Rightarrow> real \<Rightarrow> CredentialState" where
  "record_usage_stats wm cfg state model update grp now =
     (let fair_cycle_key = resolve_fair_cycle_key cfg (str_or grp model);
          output_toks = u_completion_tokens update + u_thinking_tokens update;
          total_toks = u_prompt_tokens update + u_completion_tokens update
                       + u_thinking_tokens update + u_prompt_tokens_cache_read update
                       + u_prompt_tokens_cache_write update;
          defs_arg = (if window_definitions state = [] then None
                      else Some (window_definitions state));
          model_stats0 = (case model_usage state model of
                            None \<Rightarrow> ModelStats_new | Some ms \<Rightarrow> ms);
          model_stats1 = model_stats0
            \<lparr>windows := apply_to_windows wm cfg (windows model_stats0) update now
                          total_toks output_toks defs_arg,
             totals := apply_to_totals (totals model_stats0) update now total_toks output_toks\<rparr>;
          st1 = state\<lparr>model_usage := (model_usage state)(model \<mapsto> model_stats1)\<rparr>;
          st2 = (case grp of
                   None \<Rightarrow> st1
                 | Some g \<Rightarrow>
                     if g = [] then st1
                     else
                       (let group_stats0 = (case group_usage st1 g of
                                              None \<Rightarrow> ModelStats_new | Some gs \<Rightarrow> gs);
                            group_stats1 = group_stats0
                              \<lparr>windows := apply_to_windows wm cfg (windows group_stats0) update
                                            now total_toks output_toks defs_arg,
                               totals := apply_to_totals (totals group_stats0) update now
                                           total_toks output_toks\<rparr>;
                            model_stats2 = model_stats1
                              \<lparr>windows := sync_window_timing_from_group
                                            (windows model_stats1) (windows group_stats1)\<rparr>
                        in st1\<lparr>group_usage := (group_usage st1)(g \<mapsto> group_stats1),
                               model_usage := (model_usage st1)(model \<mapsto> model_stats2)\<rparr>));
          st3 = st2\<lparr>cred_totals :=
                      apply_to_totals (cred_totals st2) update now total_toks output_toks\<rparr>
      in if fc_enabled (fair_cycle_cfg cfg)
         then (let fc_state = (case fair_cycle st3 fair_cycle_key of
                                 None \<Rightarrow> FairCycleState_new (Some fair_cycle_key)
                               | Some fc \<Rightarrow> fc)
               in st3\<lparr>fair_cycle := (fair_cycle st3)(fair_cycle_key \<mapsto>
                      fc_state\<lparr>cycle_request_count :=
                        cycle_request_count fc_state + u_request_count update\<rparr>)\<rparr>)
         else st3)"

text \<open>\<open>record_usage\<close>: the four steps, then step 5 (response headers) and the time stamp.\<close>

definition record_usage ::
  "WindowManager \<Rightarrow> ProviderUsageConfig \<Rightarrow> CredentialState \<Rightarrow> string \<Rightarrow> UsageUpdate
   \<Rightarrow> string option \<Rightarrow> Headers option \<Rightarrow> real \<Rightarrow> CredentialState" where
  "record_usage wm cfg state model update grp response_headers now =
     (let st4 = record_usage_stats wm cfg state model update grp now;
          st5 = (case response_headers of
                   None \<Rightarrow> st4
                 | Some headers \<Rightarrow> update_from_headers wm st4 headers model grp now)
      in st5\<lparr>last_updated := Some now\<rparr>)"

text \<open>The end time that \<open>_apply_cooldown\<close> resolves from \<open>until\<close> and \<open>duration\<close>.\<close>

definition resolve_until :: "real option \<Rightarrow> real option \<Rightarrow> real \<Rightarrow> real option" where
  "resolve_until duration_arg until_arg now =
     (case until_arg of
        Some u \<Rightarrow> Some u
      | None \<Rightarrow> (case duration_arg of Some d \<Rightarrow> Some (now + d) | None \<Rightarrow> None))"

text \<open>
  \<open>_apply_cooldown\<close>, which the public \<open>apply_cooldown\<close> calls under the engine lock with
  the same arguments.
\<close>

definition apply_cooldown ::
  "ProviderUsageConfig \<Rightarrow> CredentialState \<Rightarrow> string \<Rightarrow> real option \<Rightarrow> real option
   \<Rightarrow> string option \<Rightarrow> string \<Rightarrow> real \<Rightarrow> CredentialState" where
  "apply_cooldown cfg state rsn duration_arg until_arg model_or_group source now =
     (case resolve_until duration_arg until_arg now of
        None \<Rightarrow> state
      | Some cooldown_until \<Rightarrow>
          (let key = str_or model_or_group ''_global_'';
               (backoff, rsn', source', started) =
                 (case cooldowns state key of
                    None \<Rightarrow> (0, rsn, source, now)
                  | Some existing \<Rightarrow>
                      if is_active existing now
                      then (cd_backoff_count existing + 1, cd_reason existing,
                            cd_source existing, cd_started_at existing)
                      else (0, rsn, source, now));
               st1 = state\<lparr>cooldowns := (cooldowns state)(key \<mapsto>
                       \<lparr>cd_reason = rsn', cd_until = cooldown_until, cd_started_at = started,
                        cd_source = source', cd_model_or_group = model_or_group,
                        cd_backoff_count = backoff\<rparr>)\<rparr>;
               cooldown_duration = cooldown_until - now
           in if cooldown_duration \<ge> real_of_int (exhaustion_cooldown_threshold cfg)
                 \<and> fc_enabled (fair_cycle_cfg cfg) \<and> truthy model_or_group
              then mark_exhausted st1
                     (resolve_fair_cycle_key cfg (str_or model_or_group []))
                     (''cooldown_'' @ rsn') now
              else st1))"

definition clear_cooldown :: "CredentialState \<Rightarrow> string option \<Rightarrow> CredentialState" where
  "clear_cooldown state model_or_group =
     (let key = str_or model_or_group ''_global_''
      in state\<lparr>cooldowns := (cooldowns state)(key := None)\<rparr>)"

text \<open>The reset of one fair-cycle record, as \<open>reset_fair_cycle\<close> and \<open>reset_cycle\<close> do it.\<close>

definition clear_fair_cycle :: "CredentialState \<Rightarrow> string \<Rightarrow> CredentialState" where
  "clear_fair_cycle state key =
     (case fair_cycle state key of
        None \<Rightarrow> state
      | Some fc_state \<Rightarrow>
          state\<lparr>fair_cycle := (fair_cycle state)(key \<mapsto>
            fc_state\<lparr>fc_exhausted := False, fc_exhausted_at := None,
                     fc_exhausted_reason := None, cycle_request_count := 0\<rparr>)\<rparr>)"

definition reset_fair_cycle :: "CredentialState \<Rightarrow> string \<Rightarrow> CredentialState" where
  "reset_fair_cycle state model_or_group = clear_fair_cycle state model_or_group"

section \<open>Limit checkers (usage/limits)\<close>

subsection \<open>concurrent.py\<close>

definition concurrent_check :: "CredentialState \<Rightarrow> LimitCheckResult" where
  "concurrent_check state =
     (case max_concurrent state of
        None \<Rightarrow> ok
      | Some m \<Rightarrow>
          if active_requests state \<ge> m
          then blocked BLOCKED_CONCURRENT (AtMaxConcurrent (active_requests state) m) None
          else ok)"

subsection \<open>cooldowns.py\<close>

definition keys_to_check :: "string \<Rightarrow> string option \<Rightarrow> string list" where
  "keys_to_check model quota_group =
     (let group_key = str_or quota_group model
      in (if group_key \<noteq> [] then [group_key] else [])
         @ (if truthy quota_group \<and> quota_group \<noteq> Some model then [model] else []))"

fun first_active_cooldown ::
  "(string \<rightharpoonup> CooldownInfo) \<Rightarrow> real \<Rightarrow> string list \<Rightarrow> (string \<times> CooldownInfo) option" where
  "first_active_cooldown cds now [] = None"
| "first_active_cooldown cds now (key # keys) =
     (case cds key of
        None \<Rightarrow> first_active_cooldown cds now keys
      | Some cooldown \<Rightarrow>
          if cd_until cooldown > now then Some (key, cooldown)
          else first_active_cooldown cds now keys)"

definition cooldown_check :: "CredentialState \<Rightarrow> string \<Rightarrow> string option \<Rightarrow> real \<Rightarrow> LimitCheckResult" where
  "cooldown_check state model quota_group now =
     (case first_active_cooldown (cooldowns state) now (keys_to_check model quota_group) of
        Some (key, cooldown) \<Rightarrow>
          blocked BLOCKED_COOLDOWN
            (CooldownFor key (cd_reason cooldown) (remaining_seconds cooldown now))
            (Some (cd_until cooldown))
      | None \<Rightarrow>
          (case cooldowns state ''_global_'' of
             None \<Rightarrow> ok
           | Some global_cooldown \<Rightarrow>
               if cd_until global_cooldown > now
               then blocked BLOCKED_COOLDOWN
                      (GlobalCooldown (cd_reason global_cooldown)
                         (remaining_seconds global_cooldown now))
                      (Some (cd_until global_cooldown))
               else ok))"

subsection \<open>window_limits.py\<close>

text \<open>\<open>state.get_model_stats(key, create=False)\<close> followed by \<open>.windows\<close>.\<close>

definition model_windows_of :: "CredentialState \<Rightarrow> string \<Rightarrow> windows_dict option" where
  "model_windows_of state key = map_option windows (model_usage state key)"

definition group_windows_of :: "CredentialState \<Rightarrow> string \<Rightarrow> windows_dict option" where
  "group_windows_of state key = map_option windows (group_usage state key)"

fun window_limit_loop ::
  "WindowManager \<Rightarrow> CredentialState \<Rightarrow> string \<Rightarrow> string \<Rightarrow> real \<Rightarrow> WindowDefinition list
   \<Rightarrow> LimitCheckResult" where
  "window_limit_loop wm state model group_key now [] = ok"
| "window_limit_loop wm state model group_key now (definition # rest) =
     (let ws = (if applies_to definition = ''model'' then model_windows_of state model
                else if applies_to definition = ''group'' then group_windows_of state group_key
                else None)
      in (case ws of
            None \<Rightarrow> window_limit_loop wm state model group_key now rest
          | Some wins \<Rightarrow>
              (case map_of wins (wd_name definition) of
                 None \<Rightarrow> window_limit_loop wm state model group_key now rest
               | Some window \<Rightarrow>
                   if limit window = None
                   then window_limit_loop wm state model group_key now rest
                   else
                     (case get_active_window wm wins (wd_name definition) now of
                        None \<Rightarrow> window_limit_loop wm state model group_key now rest
                      | Some active \<Rightarrow>
                          (case limit active of
                             None \<Rightarrow> window_limit_loop wm state model group_key now rest
                           | Some l \<Rightarrow>
                               if request_count active \<ge> l
                               then blocked BLOCKED_WINDOW
                                      (WindowExhausted (wd_name definition)
                                         (request_count active) l)
                                      (reset_at active)
                               else window_limit_loop wm state model group_key now rest)))))"

definition window_limit_check ::
  "WindowManager \<Rightarrow> CredentialState \<Rightarrow> string \<Rightarrow> string option \<Rightarrow> real \<Rightarrow> LimitCheckResult" where
  "window_limit_check wm state model quota_group now =
     window_limit_loop wm state model (str_or quota_group model) now
       (map snd (definitions wm))"

subsection \<open>custom_caps.py\<close>

datatype cap_scope = SCOPE_MODEL | SCOPE_GROUP

text \<open>\<open>str(priority)\<close>: the decimal numeral of an integer.\<close>

definition digit_char :: "nat \<Rightarrow> char" where
  "digit_char d =
     (if d = 0 then CHR ''0'' else if d = 1 then CHR ''1'' else if d = 2 then CHR ''2''
      else if d = 3 then CHR ''3'' else if d = 4 then CHR ''4'' else if d = 5 then CHR ''5''
      else if d = 6 then CHR ''6'' else if d = 7 then CHR ''7'' else if d = 8 then CHR ''8''
      else CHR ''9'')"

fun str_nat :: "nat \<Rightarrow> string" where
  "str_nat n = (if n < 10 then [digit_char n] else str_nat (n div 10) @ [digit_char (n mod 10)])"

declare str_nat.simps [simp del]

definition str_int :: "int \<Rightarrow> string" where
  "str_int i = (if i < 0 then CHR ''-'' # str_nat (nat (- i)) else str_nat (nat i))"

text \<open>
  \<open>_cap_index\<close>: a dict filled in list order, so a later cap with the same key replaces
  an earlier one.
\<close>

definition cap_index :: "CustomCapConfig list \<Rightarrow> (string \<times> string) \<rightharpoonup> CustomCapConfig" where
  "cap_index caps = map_of (rev (map (\<lambda>cap. ((tier_key cap, cap_model_or_group cap), cap)) caps))"

definition cap_or :: "CustomCapConfig option \<Rightarrow> CustomCapConfig option \<Rightarrow> CustomCapConfig option" where
  "cap_or a b = (case a of Some c \<Rightarrow> Some c | None \<Rightarrow> b)"

definition find_all_caps ::
  "CustomCapConfig list \<Rightarrow> string \<Rightarrow> string \<Rightarrow> string option
   \<Rightarrow> (CustomCapConfig \<times> cap_scope \<times> string) list" where
  "find_all_caps caps priority_key model quota_group =
     (let idx = cap_index caps;
          model_cap = cap_or (idx (priority_key, model)) (idx (''default'', model));
          model_part = (case model_cap of None \<Rightarrow> [] | Some c \<Rightarrow> [(c, SCOPE_MODEL, model)]);
          group_part =
            (case quota_group of
               None \<Rightarrow> []
             | Some g \<Rightarrow>
                 if g \<noteq> [] \<and> g \<noteq> model
                 then (case cap_or (idx (priority_key, g)) (idx (''default'', g)) of
                         None \<Rightarrow> []
                       | Some c \<Rightarrow> [(c, SCOPE_GROUP, g)])
                 else [])
      in model_part @ group_part)"

text \<open>
  \<open>int(x)\<close> on a float truncates towards zero. The product
  \<open>window_limit * max_requests\<close> is an exact Python integer; its quotient by 100 is taken
  here as the exact rational, which the float quotient agrees with after truncation for
  every magnitude below \<open>2^53\<close>.
\<close>

definition py_int :: "real \<Rightarrow> int" where
  "py_int x = (if x \<ge> 0 then \<lfloor>x\<rfloor> else \<lceil>x\<rceil>)"

definition resolve_max_requests :: "CustomCapConfig \<Rightarrow> int option \<Rightarrow> int" where
  "resolve_max_requests cap window_limit =
     (if max_requests_mode cap = ABSOLUTE then max 0 (max_requests cap)
      else (case window_limit of
              None \<Rightarrow>
                if max_requests_mode cap = OFFSET then max 0 \<bar>max_requests cap\<bar>
                else 1000
            | Some wl \<Rightarrow>
                if max_requests_mode cap = OFFSET then max 0 (wl + max_requests cap)
                else if max_requests_mode cap = PERCENTAGE
                then max 0 (py_int (real_of_int (wl * max_requests cap) / 100))
                else max 0 (max_requests cap)))"

definition calculate_cooldown_until :: "CustomCapConfig \<Rightarrow> WindowStats \<Rightarrow> real \<Rightarrow> real option" where
  "calculate_cooldown_until cap window now =
     (let natural_reset = reset_at window
      in (case cooldown_mode cap of
            QUOTA_RESET \<Rightarrow> natural_reset
          | CD_OFFSET \<Rightarrow>
              (case natural_reset of
                 None \<Rightarrow> Some (now + \<bar>real_of_int (cooldown_value cap)\<bar>)
               | Some nr \<Rightarrow>
                   if nr = 0 then Some (now + \<bar>real_of_int (cooldown_value cap)\<bar>)
                   else Some (max (nr + real_of_int (cooldown_value cap)) nr))
          | CD_FIXED \<Rightarrow> Some (now + real_of_int (cooldown_value cap))))"

definition check_single_cap ::
  "WindowManager \<Rightarrow> CredentialState \<Rightarrow> CustomCapConfig \<Rightarrow> cap_scope \<Rightarrow> string \<Rightarrow> real
   \<Rightarrow> LimitCheckResult" where
  "check_single_cap wm state cap scope scope_key now =
     (case (case scope of
              SCOPE_GROUP \<Rightarrow> group_windows_of state scope_key
            | SCOPE_MODEL \<Rightarrow> model_windows_of state scope_key) of
        None \<Rightarrow> ok
      | Some wins \<Rightarrow>
          (case get_primary_window wm wins now of
             None \<Rightarrow> ok
           | Some primary_window \<Rightarrow>
               (let current_usage = request_count primary_window;
                    max_reqs = resolve_max_requests cap (limit primary_window)
                in if current_usage \<ge> max_reqs
                   then blocked BLOCKED_CUSTOM_CAP
                          (CustomCapExceeded
                             (case scope of SCOPE_MODEL \<Rightarrow> ''model'' | SCOPE_GROUP \<Rightarrow> ''group'')
                             scope_key current_usage max_reqs)
                          (calculate_cooldown_until cap primary_window now)
                   else ok)))"

fun check_caps_loop ::
  "WindowManager \<Rightarrow> CredentialState \<Rightarrow> real \<Rightarrow> (CustomCapConfig \<times> cap_scope \<times> string) list
   \<Rightarrow> LimitCheckResult" where
  "check_caps_loop wm state now [] = ok"
| "check_caps_loop wm state now ((cap, scope, scope_key) # rest) =
     (let res = check_single_cap wm state cap scope scope_key now
      in if \<not> allowed res then res else check_caps_loop wm state now rest)"

definition custom_cap_check ::
  "CustomCapConfig list \<Rightarrow> WindowManager \<Rightarrow> CredentialState \<Rightarrow> string \<Rightarrow> string option \<Rightarrow> real
   \<Rightarrow> LimitCheckResult" where
  "custom_cap_check caps wm state model quota_group now =
     (if caps = [] then ok
      else (case get_primary_definition wm of
              None \<Rightarrow> ok
            | Some primary_def \<Rightarrow>
                check_caps_loop wm state now
                  (find_all_caps caps (str_int (priority state)) model quota_group)))"

subsection \<open>fair_cycle.py\<close>

text \<open>
  \<open>FairCycleChecker._global_state\<close>: provider, then tracking key. The checker creates the
  record of a key on first access, so a check returns the dict as well.
\<close>

type_synonym global_fc = "string \<rightharpoonup> (string \<rightharpoonup> GlobalFairCycleState)"

definition get_global_state ::
  "global_fc \<Rightarrow> string \<Rightarrow> string \<Rightarrow> real \<Rightarrow> GlobalFairCycleState \<times> global_fc" where
  "get_global_state G prov group_key now =
     (let inner = (case G prov of None \<Rightarrow> Map.empty | Some m \<Rightarrow> m)
      in (case inner group_key of
            Some g \<Rightarrow> (g, G(prov \<mapsto> inner))
          | None \<Rightarrow>
              (let g = \<lparr>cycle_start = now, all_exhausted_at = None, cycle_count = 0\<rparr>
               in (g, G(prov \<mapsto> inner(group_key \<mapsto> g))))))"

definition resolve_tracking_key :: "FairCycleConfig \<Rightarrow> string \<Rightarrow> string option \<Rightarrow> string" where
  "resolve_tracking_key fcfg model quota_group =
     (if tracking_mode fcfg = CREDENTIAL then FAIR_CYCLE_GLOBAL_KEY
      else str_or quota_group model)"

definition should_reset_cycle :: "FairCycleConfig \<Rightarrow> GlobalFairCycleState \<Rightarrow> real \<Rightarrow> bool" where
  "should_reset_cycle fcfg global_state now =
     (now \<ge> cycle_start global_state + real_of_int (duration fcfg))"

definition smallest_limit :: "windows_dict \<Rightarrow> int option" where
  "smallest_limit wins =
     foldl (\<lambda>smallest (n, window).
              case limit window of
                None \<Rightarrow> smallest
              | Some l \<Rightarrow> (case smallest of
                             None \<Rightarrow> Some l
                           | Some s \<Rightarrow> if l < s then Some l else Some s))
       None wins"

text \<open>The limit engine always hands the checker a window manager.\<close>

definition get_quota_limit ::
  "WindowManager \<Rightarrow> CredentialState \<Rightarrow> string \<Rightarrow> string option \<Rightarrow> real \<Rightarrow> int option" where
  "get_quota_limit wm state model quota_group now =
     (case get_primary_definition wm of
        None \<Rightarrow> None
      | Some primary_def \<Rightarrow>
          (let from_group = (case quota_group of
                               None \<Rightarrow> None
                             | Some g \<Rightarrow> if g = [] then None else group_windows_of state g);
               ws = (case from_group of
                       Some w \<Rightarrow> Some w
                     | None \<Rightarrow> model_windows_of state model)
           in (case ws of
                 None \<Rightarrow> None
               | Some wins \<Rightarrow>
                   (case get_active_window wm wins (wd_name primary_def) now of
                      None \<Rightarrow> smallest_limit wins
                    | Some primary_window \<Rightarrow>
                        (case limit primary_window of
                           None \<Rightarrow> smallest_limit wins
                         | Some l \<Rightarrow> if l \<noteq> 0 then Some l else smallest_limit wins)))))"

text \<open>The in-band promotion of \<open>FairCycleChecker.check\<close>: the first half of the method.\<close>

definition promote_exhausted ::
  "FairCycleConfig \<Rightarrow> WindowManager \<Rightarrow> CredentialState \<Rightarrow> string \<Rightarrow> string option \<Rightarrow> real
   \<Rightarrow> CredentialState" where
  "promote_exhausted fcfg wm state model quota_group now =
     (let group_key = resolve_tracking_key fcfg model quota_group
      in (case fair_cycle state group_key of
            None \<Rightarrow> state
          | Some fc_state \<Rightarrow>
              if fc_exhausted fc_state then state
              else (case get_quota_limit wm state model quota_group now of
                      None \<Rightarrow> state
                    | Some quota_limit \<Rightarrow>
                        (let threshold = py_int (real_of_int quota_limit * quota_threshold fcfg)
                         in if cycle_request_count fc_state \<ge> threshold
                            then state\<lparr>fair_cycle := (fair_cycle state)(group_key \<mapsto>
                                   fc_state\<lparr>fc_exhausted := True, fc_exhausted_at := Some now,
                                            fc_exhausted_reason := Some ''quota_threshold''\<rparr>)\<rparr>
                            else state))))"

definition fair_cycle_check ::
  "FairCycleConfig \<Rightarrow> WindowManager \<Rightarrow> CredentialState \<Rightarrow> string \<Rightarrow> string option \<Rightarrow> real
   \<Rightarrow> global_fc \<Rightarrow> LimitCheckResult \<times> CredentialState \<times> global_fc" where
  "fair_cycle_check fcfg wm state model quota_group now G =
     (if \<not> fc_enabled fcfg then (ok, state, G)
      else
        (let group_key = resolve_tracking_key fcfg model quota_group;
             st1 = promote_exhausted fcfg wm state model quota_group now
         in if \<not> is_fair_cycle_exhausted st1 group_key then (ok, st1, G)
            else
              (let (global_state, G1) = get_global_state G (provider st1) group_key now
               in if should_reset_cycle fcfg global_state now then (ok, st1, G1)
                  else (blocked BLOCKED_FAIR_CYCLE (FairCycleWaiting group_key) None,
                        st1, G1))))"

text \<open>The update of the global record at the end of \<open>reset_cycle\<close>.\<close>

definition reset_cycle_global :: "string \<Rightarrow> string \<Rightarrow> real \<Rightarrow> global_fc \<Rightarrow> global_fc" where
  "reset_cycle_global prov group_key now G =
     (let (global_state, G1) = get_global_state G prov group_key now;
          inner = (case G1 prov of None \<Rightarrow> Map.empty | Some m \<Rightarrow> m)
      in G1(prov \<mapsto> inner(group_key \<mapsto>
           global_state\<lparr>cycle_start := now, all_exhausted_at := None,
                        cycle_count := cycle_count global_state + 1\<rparr>)))"

text \<open>
  \<open>reset_cycle(provider, group_key, all_states)\<close>. The credential objects live in the
  dict of candidates; the list \<open>all_states\<close> is given by the predicate \<open>member\<close> that
  picks its objects out of that dict, and the dict is returned with those objects reset.
\<close>

definition reset_cycle ::
  "string \<Rightarrow> string \<Rightarrow> (CredentialState \<Rightarrow> bool) \<Rightarrow> (string \<times> CredentialState) list \<Rightarrow> real
   \<Rightarrow> global_fc \<Rightarrow> (string \<times> CredentialState) list \<times> global_fc" where
  "reset_cycle prov group_key member cands now G =
     (map (\<lambda>(sid, state). if member state then (sid, clear_fair_cycle state group_key)
                            else (sid, state)) cands,
      reset_cycle_global prov group_key now G)"

definition all_exhausted_in_group :: "CredentialState list \<Rightarrow> string \<Rightarrow> bool" where
  "all_exhausted_in_group states group_key =
     list_all (\<lambda>state. is_fair_cycle_exhausted state group_key) states"

section \<open>Limit engine (usage/limits/engine.py)\<close>

datatype checker =
  ConcurrentLimitChecker | CooldownChecker | WindowLimitChecker | CustomCapChecker
  | FairCycleChecker

text \<open>\<open>LimitEngine.__init__\<close>: the list \<open>self._checkers\<close>.\<close>

definition checkers :: "ProviderUsageConfig \<Rightarrow> checker list" where
  "checkers cfg =
     [ConcurrentLimitChecker, CooldownChecker]
     @ (if window_limits_enabled cfg then [WindowLimitChecker] else [])
     @ [CustomCapChecker, FairCycleChecker]"

text \<open>\<open>checker.check(state, model, quota_group)\<close>, by dynamic dispatch on the checker.\<close>

fun check ::
  "checker \<Rightarrow> ProviderUsageConfig \<Rightarrow> WindowManager \<Rightarrow> CredentialState \<Rightarrow> string \<Rightarrow> string option
   \<Rightarrow> real \<Rightarrow> global_fc \<Rightarrow> LimitCheckResult \<times> CredentialState \<times> global_fc" where
  "check ConcurrentLimitChecker cfg wm state model quota_group now G =
     (concurrent_check state, state, G)"
| "check CooldownChecker cfg wm state model quota_group now G =
     (cooldown_check state model quota_group now, state, G)"
| "check WindowLimitChecker cfg wm state model quota_group now G =
     (window_limit_check wm state model quota_group now, state, G)"
| "check CustomCapChecker cfg wm state model quota_group now G =
     (custom_cap_check (custom_caps cfg) wm state model quota_group now, state, G)"
| "check FairCycleChecker cfg wm state model quota_group now G =
     fair_cycle_check (fair_cycle_cfg cfg) wm state model quota_group now G"

fun run_checkers ::
  "checker list \<Rightarrow> ProviderUsageConfig \<Rightarrow> WindowManager \<Rightarrow> CredentialState \<Rightarrow> string
   \<Rightarrow> string option \<Rightarrow> real \<Rightarrow> global_fc \<Rightarrow> LimitCheckResult \<times> CredentialState \<times> global_fc" where
  "run_checkers [] cfg wm state model quota_group now G = (ok, state, G)"
| "run_checkers (c # cs) cfg wm state model quota_group now G =
     (let (res, state', G') = check c cfg wm state model quota_group now G
      in if \<not> allowed res then (res, state', G')
         else run_checkers cs cfg wm state' model quota_group now G')"

definition check_all ::
  "ProviderUsageConfig \<Rightarrow> WindowManager \<Rightarrow> CredentialState \<Rightarrow> string \<Rightarrow> string option \<Rightarrow> real
   \<Rightarrow> global_fc \<Rightarrow> LimitCheckResult \<times> CredentialState \<times> global_fc" where
  "check_all cfg wm state model quota_group now G =
     run_checkers (checkers cfg) cfg wm state model quota_group now G"

section \<open>Rotation strategies (usage/selection/strategies)\<close>

record SelectionContext =
  ctx_provider :: string
  ctx_model :: string
  ctx_quota_group :: "string option"
  candidates :: "string list"
  priorities :: "string \<rightharpoonup> int"
  usage_counts :: "string \<rightharpoonup> int"
  ctx_rotation_mode :: RotationMode
  ctx_rotation_tolerance :: real
  deadline :: real

text \<open>
  The random source of \<open>balanced.py\<close>: \<open>uniform01 k\<close> is the variate in \<open>[0, 1)\<close> behind
  the \<open>random.uniform(0, total)\<close> of the \<open>k\<close>-th priority tier tried, and
  \<open>choice_index k\<close> the index drawn by \<open>random.choice\<close> there.
\<close>

record Random =
  uniform01 :: "nat \<Rightarrow> real"
  choice_index :: "nat \<Rightarrow> nat"

subsection \<open>balanced.py\<close>

definition calculate_weights :: "real \<Rightarrow> string list \<Rightarrow> (string \<rightharpoonup> int) \<Rightarrow> real list" where
  "calculate_weights tolerance cands usage =
     (if cands = [] then []
      else
        (let usages = map (\<lambda>sid. case usage sid of None \<Rightarrow> 0 | Some u \<Rightarrow> u) cands;
             max_usage = Max (set usages)
         in map (\<lambda>u. max (real_of_int (max_usage - u) + tolerance + 1) (1 / 10)) usages))"

fun weighted_loop :: "real \<Rightarrow> real \<Rightarrow> (string \<times> real) list \<Rightarrow> string option" where
  "weighted_loop r cumulative [] = None"
| "weighted_loop r cumulative ((candidate, weight) # rest) =
     (if r \<le> cumulative + weight then Some candidate
      else weighted_loop r (cumulative + weight) rest)"

definition weighted_random_choice ::
  "string list \<Rightarrow> real list \<Rightarrow> real \<Rightarrow> nat \<Rightarrow> string option" where
  "weighted_random_choice cands weights u idx =
     (case cands of
        [] \<Rightarrow> None
      | [c] \<Rightarrow> Some c
      | _ \<Rightarrow>
          (let total = sum_list weights
           in if total \<le> 0 then Some (cands ! (idx mod length cands))
              else (case weighted_loop (total * u) 0 (zip cands weights) of
                      Some c \<Rightarrow> Some c
                    | None \<Rightarrow> Some (last cands))))"

definition priority_of :: "(string \<rightharpoonup> int) \<Rightarrow> string \<Rightarrow> int" where
  "priority_of prio sid = (case prio sid of None \<Rightarrow> 999 | Some p \<Rightarrow> p)"

text \<open>
  The loop over \<open>sorted(priority_groups.keys())\<close>; the group of a priority is the
  candidates with that priority, in their order. A selected id that is the empty string
  is falsy and sends the loop on.
\<close>

fun balanced_loop ::
  "Random \<Rightarrow> real \<Rightarrow> SelectionContext \<Rightarrow> nat \<Rightarrow> int list \<Rightarrow> string option" where
  "balanced_loop rnd tolerance context k [] = None"
| "balanced_loop rnd tolerance context k (p # ps) =
     (let tier = filter (\<lambda>sid. priority_of (priorities context) sid = p) (candidates context);
          weights = calculate_weights tolerance tier (usage_counts context)
      in (case weighted_random_choice tier weights (uniform01 rnd k) (choice_index rnd k) of
            None \<Rightarrow> balanced_loop rnd tolerance context (Suc k) ps
          | Some selected \<Rightarrow>
              if selected \<noteq> [] then Some selected
              else balanced_loop rnd tolerance context (Suc k) ps))"

definition balanced_select :: "Random \<Rightarrow> real \<Rightarrow> SelectionContext \<Rightarrow> string option" where
  "balanced_select rnd tolerance context =
     (case candidates context of
        [] \<Rightarrow> None
      | [c] \<Rightarrow> Some c
      | c # _ \<Rightarrow>
          (case balanced_loop rnd tolerance context 0
                  (sort (remdups (map (priority_of (priorities context)) (candidates context)))) of
             Some selected \<Rightarrow> Some selected
           | None \<Rightarrow> Some c))"

subsection \<open>sequential.py\<close>

type_synonym sticky = "(string \<times> string) \<rightharpoonup> string"

definition seq_sort_key ::
  "(string \<rightharpoonup> int) \<Rightarrow> (string \<rightharpoonup> int) \<Rightarrow> (string \<rightharpoonup> CredentialState) \<Rightarrow> string
   \<Rightarrow> int \<times> int \<times> real" where
  "seq_sort_key prio usage states c =
     (priority_of prio c,
      - (case usage c of None \<Rightarrow> 0 | Some u \<Rightarrow> u),
      (case states c of
         None \<Rightarrow> 0
       | Some state \<Rightarrow> - real_or (tot_last_used_at (cred_totals state)) 0))"

definition select_by_priority ::
  "string list \<Rightarrow> (string \<rightharpoonup> int) \<Rightarrow> (string \<rightharpoonup> int) \<Rightarrow> (string \<rightharpoonup> CredentialState)
   \<Rightarrow> string option" where
  "select_by_priority cands prio usage states =
     (case sort_key (seq_sort_key prio usage states) cands of
        [] \<Rightarrow> None
      | c # _ \<Rightarrow> Some c)"

definition sequential_select ::
  "sticky \<Rightarrow> SelectionContext \<Rightarrow> (string \<rightharpoonup> CredentialState) \<Rightarrow> string option \<times> sticky" where
  "sequential_select cur context states =
     (case candidates context of
        [] \<Rightarrow> (None, cur)
      | [c] \<Rightarrow> (Some c, cur)
      | _ \<Rightarrow>
          (let key = (ctx_provider context, str_or (ctx_quota_group context) (ctx_model context))
           in if truthy (cur key) \<and> (case cur key of None \<Rightarrow> False
                                       | Some current \<Rightarrow> current \<in> set (candidates context))
              then (cur key, cur)
              else
                (case select_by_priority (candidates context) (priorities context)
                        (usage_counts context) states of
                   None \<Rightarrow> (None, cur)
                 | Some selected \<Rightarrow>
                     if selected \<noteq> [] then (Some selected, cur(key \<mapsto> selected))
                     else (Some selected, cur))))"

section \<open>Selection engine (usage/selection/engine.py)\<close>

definition get_usage_count ::
  "WindowManager \<Rightarrow> CredentialState \<Rightarrow> string \<Rightarrow> string option \<Rightarrow> real \<Rightarrow> int" where
  "get_usage_count wm state model quota_group now =
     (case get_primary_definition wm of
        None \<Rightarrow> tot_request_count (cred_totals state)
      | Some primary_def \<Rightarrow>
          (let ws = (if applies_to primary_def = ''model'' then model_windows_of state model
                     else if applies_to primary_def = ''group''
                     then group_windows_of state (str_or quota_group model)
                     else None)
           in (case ws of
                 None \<Rightarrow> tot_request_count (cred_totals state)
               | Some wins \<Rightarrow>
                   if wins = [] then tot_request_count (cred_totals state)
                   else (case get_active_window wm wins (wd_name primary_def) now of
                           None \<Rightarrow> tot_request_count (cred_totals state)
                         | Some window \<Rightarrow> request_count window))))"

text \<open>
  \<open>_get_shortest_cooldown\<close>: \<open>shortest_remaining\<close> starts at \<open>float("inf")\<close>, which is
  \<open>None\<close> here.
\<close>

definition shorter :: "real \<Rightarrow> string \<Rightarrow> real option \<times> string option \<Rightarrow> real option \<times> string option" where
  "shorter remaining sid acc =
     (case fst acc of
        None \<Rightarrow> (Some remaining, Some sid)
      | Some s \<Rightarrow> if remaining < s then (Some remaining, Some sid) else acc)"

definition cooldown_step ::
  "string \<Rightarrow> real \<Rightarrow> CredentialState \<Rightarrow> real option \<times> string option \<Rightarrow> real option \<times> string option" where
  "cooldown_step key now state acc =
     (case cooldowns state key of
        None \<Rightarrow> acc
      | Some cooldown \<Rightarrow>
          if cd_until cooldown > now then shorter (cd_until cooldown - now) (stable_id state) acc
          else acc)"

definition get_shortest_cooldown ::
  "FairCycleConfig \<Rightarrow> CredentialState list \<Rightarrow> string \<Rightarrow> real
   \<Rightarrow> bool \<times> string option \<times> real option" where
  "get_shortest_cooldown fcfg states group_key now =
     (let (shortest_remaining, shortest_cred_id) =
            foldl (\<lambda>acc state.
                     cooldown_step ''_global_'' now state (cooldown_step group_key now state acc))
              (None, None) states
      in (case shortest_remaining of
            None \<Rightarrow> (False, None, None)
          | Some rem \<Rightarrow>
              if rem < real_of_int (reset_cooldown_threshold fcfg)
              then (True, shortest_cred_id, Some rem)
              else (False, None, Some rem)))"

text \<open>
  The first loop of \<open>_try_fair_cycle_reset\<close>: \<open>None\<close> when some candidate is allowed (the
  early \<open>return False\<close>), otherwise the number of candidates blocked by the fair cycle.
\<close>

fun count_fair_cycle_blocked ::
  "ProviderUsageConfig \<Rightarrow> WindowManager \<Rightarrow> string \<Rightarrow> string option \<Rightarrow> real
   \<Rightarrow> (string \<times> CredentialState) list \<Rightarrow> global_fc
   \<Rightarrow> nat option \<times> (string \<times> CredentialState) list \<times> global_fc" where
  "count_fair_cycle_blocked cfg wm model quota_group now [] G = (Some 0, [], G)"
| "count_fair_cycle_blocked cfg wm model quota_group now ((sid, state) # rest) G =
     (let (res, state', G1) = check_all cfg wm state model quota_group now G
      in if allowed res then (None, (sid, state') # rest, G1)
         else
           (let (cnt, rest', G2) = count_fair_cycle_blocked cfg wm model quota_group now rest G1
            in (map_option (\<lambda>n. if result res = BLOCKED_FAIR_CYCLE then Suc n else n) cnt,
                (sid, state') # rest', G2)))"

text \<open>The keys of \<open>tier_groups\<close>: the priorities in order of first occurrence.\<close>

fun tier_keys :: "int list \<Rightarrow> int list" where
  "tier_keys [] = []"
| "tier_keys (p # ps) = p # filter (\<lambda>q. q \<noteq> p) (tier_keys ps)"

text \<open>
  The per-tier loop. \<open>tier_groups[priority]\<close> is the candidates with that priority; a
  reset touches only them, so the groups of the later tiers are read from the updated dict.
\<close>

fun reset_tiers ::
  "FairCycleConfig \<Rightarrow> string \<Rightarrow> string \<Rightarrow> string \<Rightarrow> real \<Rightarrow> int list
   \<Rightarrow> (string \<times> CredentialState) list \<Rightarrow> global_fc
   \<Rightarrow> bool \<times> (string \<times> CredentialState) list \<times> global_fc" where
  "reset_tiers fcfg prov tracking_key group_key now [] cands G = (False, cands, G)"
| "reset_tiers fcfg prov tracking_key group_key now (p # ps) cands G =
     (let tier_states = filter (\<lambda>state. priority state = p) (map snd cands)
      in if list_all (\<lambda>state. is_fair_cycle_exhausted state tracking_key) tier_states
            \<and> \<not> fst (get_shortest_cooldown fcfg tier_states group_key now)
         then (let (cands', G') =
                     reset_cycle prov tracking_key (\<lambda>state. priority state = p) cands now G;
                   (reset_any, cands'', G'') =
                     reset_tiers fcfg prov tracking_key group_key now ps cands' G'
               in (True, cands'', G''))
         else reset_tiers fcfg prov tracking_key group_key now ps cands G)"

definition try_fair_cycle_reset ::
  "ProviderUsageConfig \<Rightarrow> WindowManager \<Rightarrow> string \<Rightarrow> string \<Rightarrow> string option \<Rightarrow> real
   \<Rightarrow> (string \<times> CredentialState) list \<Rightarrow> global_fc
   \<Rightarrow> bool \<times> (string \<times> CredentialState) list \<times> global_fc" where
  "try_fair_cycle_reset cfg wm prov model quota_group now cands G =
     (let group_key = str_or quota_group model;
          tracking_key = resolve_tracking_key (fair_cycle_cfg cfg) model quota_group;
          (cnt, cands1, G1) = count_fair_cycle_blocked cfg wm model quota_group now cands G
      in (case cnt of
            None \<Rightarrow> (False, cands1, G1)
          | Some fair_cycle_blocked_count \<Rightarrow>
              if fair_cycle_blocked_count = 0 then (False, cands1, G1)
              else if cross_tier (fair_cycle_cfg cfg)
              then
                (if all_exhausted_in_group (map snd cands1) tracking_key
                 then (if fst (get_shortest_cooldown (fair_cycle_cfg cfg) (map snd cands1)
                                 group_key now)
                       then (False, cands1, G1)
                       else (let (cands2, G2) =
                                   reset_cycle prov tracking_key (\<lambda>state. True) cands1 now G1
                             in (True, cands2, G2)))
                 else (False, cands1, G1))
              else reset_tiers (fair_cycle_cfg cfg) prov tracking_key group_key now
                     (tier_keys (map (\<lambda>(sid, state). priority state) cands1)) cands1 G1))"

text \<open>Step 2 of \<open>select\<close>: every candidate is checked; the allowed ones are kept.\<close>

fun filter_available ::
  "ProviderUsageConfig \<Rightarrow> WindowManager \<Rightarrow> string \<Rightarrow> string option \<Rightarrow> real
   \<Rightarrow> (string \<times> CredentialState) list \<Rightarrow> global_fc
   \<Rightarrow> string list \<times> (string \<times> CredentialState) list \<times> global_fc" where
  "filter_available cfg wm model quota_group now [] G = ([], [], G)"
| "filter_available cfg wm model quota_group now ((sid, state) # rest) G =
     (let (res, state', G1) = check_all cfg wm state model quota_group now G;
          (available, rest', G2) = filter_available cfg wm model quota_group now rest G1
      in (if allowed res then sid # available else available, (sid, state') # rest', G2))"

text \<open>The engine state that outlives a call: the global fair-cycle records and the sticky map.\<close>

record engine_state =
  global_state :: global_fc
  current :: sticky

definition apply_strategy ::
  "ProviderUsageConfig \<Rightarrow> Random \<Rightarrow> SelectionContext \<Rightarrow> (string \<rightharpoonup> CredentialState) \<Rightarrow> sticky
   \<Rightarrow> string option \<times> sticky" where
  "apply_strategy cfg rnd context states cur =
     (if rotation_mode cfg = SEQUENTIAL then sequential_select cur context states
      else (balanced_select rnd (rotation_tolerance cfg) context, cur))"

text \<open>Step 3 of \<open>select\<close>: the usage counts, the priorities and the context.\<close>

definition build_context ::
  "ProviderUsageConfig \<Rightarrow> WindowManager \<Rightarrow> string \<Rightarrow> string \<Rightarrow> string option
   \<Rightarrow> (string \<rightharpoonup> int) option \<Rightarrow> real \<Rightarrow> real \<Rightarrow> string list \<Rightarrow> (string \<rightharpoonup> CredentialState)
   \<Rightarrow> SelectionContext" where
  "build_context cfg wm prov model quota_group prio deadline_arg now available states =
     \<lparr>ctx_provider = prov, ctx_model = model, ctx_quota_group = quota_group,
      candidates = available,
      priorities =
        (case prio of
           Some p \<Rightarrow> p
         | None \<Rightarrow> map_of (map (\<lambda>sid. (sid, (case states sid of
                                                None \<Rightarrow> 999
                                              | Some state \<Rightarrow> priority state))) available)),
      usage_counts =
        map_of (map (\<lambda>sid. (sid, (case states sid of
                                     None \<Rightarrow> 0
                                   | Some state \<Rightarrow>
                                       get_usage_count wm state model quota_group now)))
                  available),
      ctx_rotation_mode = rotation_mode cfg,
      ctx_rotation_tolerance = rotation_tolerance cfg,
      deadline = (if deadline_arg = 0 then now + 120 else deadline_arg)\<rparr>"

text \<open>
  \<open>select\<close> on the candidates, that is the entries of \<open>states\<close> whose id is not excluded.
  The recursive call of the source passes the same \<open>states\<close> and \<open>exclude\<close>, so its
  candidates are the same entries, as updated. The first argument bounds the depth of the
  recursion; \<open>None\<close> is Python's \<open>RecursionError\<close>.
\<close>

fun select_candidates ::
  "nat \<Rightarrow> ProviderUsageConfig \<Rightarrow> WindowManager \<Rightarrow> Random \<Rightarrow> string \<Rightarrow> string
   \<Rightarrow> (string \<times> CredentialState) list \<Rightarrow> string option \<Rightarrow> (string \<rightharpoonup> int) option \<Rightarrow> real
   \<Rightarrow> real \<Rightarrow> engine_state
   \<Rightarrow> (string option \<times> (string \<times> CredentialState) list \<times> engine_state) option" where
  "select_candidates 0 cfg wm rnd prov model cands quota_group prio deadline_arg now es = None"
| "select_candidates (Suc fuel) cfg wm rnd prov model cands quota_group prio deadline_arg now es =
     (if cands = [] then Some (None, cands, es)
      else
        (let (available, cands1, G1) =
               filter_available cfg wm model quota_group now cands (global_state es)
         in if available = []
            then
              (if fc_enabled (fair_cycle_cfg cfg)
               then
                 (let (reset_performed, cands2, G2) =
                        try_fair_cycle_reset cfg wm prov model quota_group now cands1 G1
                  in if reset_performed
                     then select_candidates fuel cfg wm rnd prov model cands2 quota_group prio
                            deadline_arg now (es\<lparr>global_state := G2\<rparr>)
                     else Some (None, cands2, es\<lparr>global_state := G2\<rparr>))
               else Some (None, cands1, es\<lparr>global_state := G1\<rparr>))
            else
              (let context = build_context cfg wm prov model quota_group prio deadline_arg now
                               available (map_of cands1);
                   (selected, cur') = apply_strategy cfg rnd context (map_of cands1) (current es)
               in Some (selected, cands1, \<lparr>global_state = G1, current = cur'\<rparr>))))"

text \<open>
  \<open>SelectionEngine.select\<close>: the candidates are read off \<open>states\<close>, and the credential
  objects mutated during the call are written back under their ids.
\<close>

definition select ::
  "nat \<Rightarrow> ProviderUsageConfig \<Rightarrow> WindowManager \<Rightarrow> Random \<Rightarrow> string \<Rightarrow> string
   \<Rightarrow> (string \<times> CredentialState) list \<Rightarrow> string option \<Rightarrow> string set option
   \<Rightarrow> (string \<rightharpoonup> int) option \<Rightarrow> real \<Rightarrow> real \<Rightarrow> engine_state
   \<Rightarrow> (string option \<times> (string \<times> CredentialState) list \<times> engine_state) option" where
  "select fuel cfg wm rnd prov model states quota_group exclude prio deadline_arg now es =
     (let excl = (case exclude of None \<Rightarrow> {} | Some e \<Rightarrow> e);
          cands = filter (\<lambda>(sid, state). sid \<notin> excl) states
      in (case select_candidates fuel cfg wm rnd prov model cands quota_group prio
                 deadline_arg now es of
            None \<Rightarrow> None
          | Some (selected, cands', es') \<Rightarrow>
              Some (selected,
                    map (\<lambda>(sid, state). case map_of cands' sid of
                                           None \<Rightarrow> (sid, state)
                                         | Some state' \<Rightarrow> (sid, state')) states,
                    es')))"

section \<open>Concrete configurations\<close>

text \<open>
  One provider with a single primary window, a rolling five-hour window counted per quota
  group, a custom cap of \<open>-50\<close> on the group \<open>G\<close>, and the fair cycle switched on.
\<close>

definition ex_def :: WindowDefinition where
  "ex_def = \<lparr>wd_name = ''5h'', duration_seconds = Some 18000, reset_mode = ROLLING,
             is_primary = True, applies_to = ''group''\<rparr>"

definition ex_wm :: WindowManager where
  "ex_wm = \<lparr>definitions = [(''5h'', ex_def)],
            past_daily_reset = (\<lambda>s n. False), past_weekly_reset = (\<lambda>s n. False),
            past_monthly_reset = (\<lambda>s n. False), next_daily_reset = (\<lambda>s. s),
            next_weekly_reset = (\<lambda>s. s), next_monthly_reset = (\<lambda>s. s)\<rparr>"

definition ex_cap :: CustomCapConfig where
  "ex_cap = \<lparr>tier_key = ''default'', cap_model_or_group = ''G'', max_requests = - 50,
             max_requests_mode = OFFSET, cooldown_mode = QUOTA_RESET, cooldown_value = 0\<rparr>"

definition ex_fc :: FairCycleConfig where
  "ex_fc = \<lparr>enabled = Some True, tracking_mode = MODEL_GROUP, cross_tier = False,
            duration = 60, quota_threshold = 1, reset_cooldown_threshold = 120\<rparr>"

definition ex_cfg :: ProviderUsageConfig where
  "ex_cfg = \<lparr>rotation_mode = BALANCED, rotation_tolerance = 0, fair_cycle_cfg = ex_fc,
             custom_caps = [ex_cap], exhaustion_cooldown_threshold = 300,
             window_limits_enabled = False, cfg_windows = [ex_def]\<rparr>"


text \<open>A window of the group \<open>G\<close> with limit 200 that has counted \<open>n\<close> requests.\<close>

definition ex_window :: "int \<Rightarrow> WindowStats" where
  "ex_window n = (WindowStats_new ''5h'')
     \<lparr>request_count := n, success_count := n, started_at := Some 1000,
      reset_at := Some 19000, limit := Some 200, max_recorded_requests := Some n,
      max_recorded_at := Some 1200, first_used_at := Some 1000, last_used_at := Some 1200\<rparr>"

definition ex_capped :: "int \<Rightarrow> CredentialState" where
  "ex_capped n = (CredentialState_new ''a'' ''prov'' ''key-a'')
     \<lparr>group_usage := [''G'' \<mapsto> \<lparr>windows = [(''5h'', ex_window n)], totals = TotalStats_new\<rparr>]\<rparr>"

text \<open>A rate-limit cooldown on the model \<open>m\<close>, running from time 10 to time 100.\<close>

definition ex_cooldown :: CooldownInfo where
  "ex_cooldown = \<lparr>cd_reason = ''rate_limit'', cd_until = 100, cd_started_at = 10,
                  cd_source = ''error'', cd_model_or_group = Some ''m'', cd_backoff_count = 0\<rparr>"

text \<open>
  A credential below its concurrency cap that is cooling down and is also exhausted for
  the fair cycle.
\<close>

definition ex_cooling :: CredentialState where
  "ex_cooling = (CredentialState_new ''a'' ''prov'' ''key-a'')
     \<lparr>cooldowns := [''m'' \<mapsto> ex_cooldown],
      fair_cycle := [''m'' \<mapsto> (FairCycleState_new (Some ''m''))\<lparr>fc_exhausted := True\<rparr>],
      active_requests := 0, max_concurrent := Some 2\<rparr>"

text \<open>
  Credential \<open>a\<close>, exhausted for the fair cycle of model \<open>m\<close> and cooling down on \<open>m\<close>
  until the given time; credential \<open>b\<close>, exhausted and not cooling down.
\<close>

definition ex_cooled :: "real \<Rightarrow> CredentialState" where
  "ex_cooled t = (CredentialState_new ''a'' ''prov'' ''key-a'')
     \<lparr>cooldowns := [''m'' \<mapsto> ex_cooldown\<lparr>cd_until := t\<rparr>],
      fair_cycle := [''m'' \<mapsto> (FairCycleState_new (Some ''m''))
                       \<lparr>fc_exhausted := True, fc_exhausted_reason := Some ''cooldown_rate_limit'',
                        cycle_request_count := 7\<rparr>]\<rparr>"


definition ex_rnd :: Random where
  "ex_rnd = \<lparr>uniform01 = (\<lambda>k. 1 / 2), choice_index = (\<lambda>k. 0)\<rparr>"

definition ex_es :: engine_state where
  "ex_es = \<lparr>global_state = Map.empty, current = Map.empty\<rparr>"



section \<open>Predicates of the specification\<close>


text \<open>The checkers that stand before the fair-cycle checker in the engine's list.\<close>

definition earlier_checkers :: "ProviderUsageConfig \<Rightarrow> checker list" where
  "earlier_checkers cfg =
     [ConcurrentLimitChecker, CooldownChecker]
     @ (if window_limits_enabled cfg then [WindowLimitChecker] else [])
     @ [CustomCapChecker]"

text \<open>
  A credential passes the earlier checkers when none of them blocks it. None of them
  reads or writes the global fair-cycle records.
\<close>

definition passes_earlier ::
  "ProviderUsageConfig \<Rightarrow> WindowManager \<Rightarrow> CredentialState \<Rightarrow> string \<Rightarrow> string option \<Rightarrow> real
   \<Rightarrow> bool" where
  "passes_earlier cfg wm state model quota_group now =
     allowed (fst (run_checkers (earlier_checkers cfg) cfg wm state model quota_group now
                     Map.empty))"








text \<open>An unused credential \<open>b\<close>.\<close>

definition ex_fresh :: CredentialState where
  "ex_fresh = CredentialState_new ''b'' ''prov'' ''key-b''"

section \<open>Verification\<close>

subsection \<open>Window manager\<close>




subsection \<open>Tracking engine\<close>

text \<open>
  Claim C2. When \<open>apply_cooldown\<close> resolves an end time and the cooldown stored under
  the key is still active (\<open>now < until\<close>), the stored cooldown keeps its reason, its
  source and its \<open>started_at\<close>; \<open>until\<close> becomes the newly resolved value and
  \<open>backoff_count\<close> grows by exactly 1. The scope field is stamped with the scope of the
  call, and no cooldown under another key changes.
\<close>

theorem apply_cooldown_preserves_original:
  assumes "cooldowns state (str_or model_or_group ''_global_'') = Some existing"
      and "is_active existing now"
      and "resolve_until duration_arg until_arg now = Some cooldown_until"
  shows "cooldowns (apply_cooldown cfg state rsn duration_arg until_arg model_or_group source now)
           (str_or model_or_group ''_global_'')
         = Some \<lparr>cd_reason = cd_reason existing, cd_until = cooldown_until,
                 cd_started_at = cd_started_at existing, cd_source = cd_source existing,
                 cd_model_or_group = model_or_group,
                 cd_backoff_count = cd_backoff_count existing + 1\<rparr>
         \<and> (\<forall>k. k \<noteq> str_or model_or_group ''_global_'' \<longrightarrow>
               cooldowns (apply_cooldown cfg state rsn duration_arg until_arg model_or_group
                            source now) k = cooldowns state k)"
  using assms
  by (auto simp: apply_cooldown_def mark_exhausted_def Let_def)

text \<open>
  The theorem at the credential \<open>ex_cooling\<close>: a quota error at time 50 with a
  600-second cooldown leaves the reason \<open>rate_limit\<close> of the first cooldown in place.
\<close>

theorem apply_cooldown_preserves_original_witness:
  "cooldowns ex_cooling (str_or (Some ''m'') ''_global_'') = Some ex_cooldown
   \<and> is_active ex_cooldown 50
   \<and> resolve_until (Some 600) None 50 = Some 650
   \<and> cooldowns (apply_cooldown ex_cfg ex_cooling ''quota_exceeded'' (Some 600) None (Some ''m'')
                   ''api_quota'' 50) ''m''
       = Some \<lparr>cd_reason = ''rate_limit'', cd_until = 650, cd_started_at = 10,
               cd_source = ''error'', cd_model_or_group = Some ''m'', cd_backoff_count = 1\<rparr>"
proof -
  have k: "str_or (Some ''m'') ''_global_'' = ''m''" by (simp add: str_or_def)
  have h1: "cooldowns ex_cooling (str_or (Some ''m'') ''_global_'') = Some ex_cooldown"
    by (simp add: k ex_cooling_def CredentialState_new_def)
  have h2: "is_active ex_cooldown 50" by (simp add: is_active_def ex_cooldown_def)
  have h3: "resolve_until (Some 600) None 50 = Some 650" by (simp add: resolve_until_def)
  from apply_cooldown_preserves_original[OF h1 h2 h3, of ex_cfg "''quota_exceeded''" "''api_quota''"]
  have "cooldowns (apply_cooldown ex_cfg ex_cooling ''quota_exceeded'' (Some 600) None (Some ''m'')
                   ''api_quota'' 50) ''m''
       = Some \<lparr>cd_reason = cd_reason ex_cooldown, cd_until = 650,
               cd_started_at = cd_started_at ex_cooldown, cd_source = cd_source ex_cooldown,
               cd_model_or_group = Some ''m'',
               cd_backoff_count = cd_backoff_count ex_cooldown + 1\<rparr>"
    unfolding k by blast
  then show ?thesis
    using h1 h2 h3 by (simp add: ex_cooldown_def)
qed














lemma is_fce_cooldowns [simp]:
  "is_fair_cycle_exhausted (state\<lparr>cooldowns := cds\<rparr>) k = is_fair_cycle_exhausted state k"
  by (simp add: is_fair_cycle_exhausted_def)

lemma windows_of_cooldowns [simp]:
  "group_windows_of (state\<lparr>cooldowns := cds\<rparr>) g = group_windows_of state g"
  "model_windows_of (state\<lparr>cooldowns := cds\<rparr>) m = model_windows_of state m"
  by (simp_all add: group_windows_of_def model_windows_of_def)

lemma get_quota_limit_cooldowns [simp]:
  "get_quota_limit wm (state\<lparr>cooldowns := cds\<rparr>) model qg now = get_quota_limit wm state model qg now"
  by (simp add: get_quota_limit_def cong: option.case_cong if_cong)

lemma promote_exhausted_cooldowns:
  "promote_exhausted fcfg wm (state\<lparr>cooldowns := cds\<rparr>) model qg now
   = (promote_exhausted fcfg wm state model qg now)\<lparr>cooldowns := cds\<rparr>"
  by (simp add: promote_exhausted_def Let_def split: option.splits)

lemma promote_exhausted_frame:
  "cooldowns (promote_exhausted fcfg wm state model qg now) = cooldowns state"
  "provider (promote_exhausted fcfg wm state model qg now) = provider state"
  by (simp_all add: promote_exhausted_def Let_def split: option.splits)

lemma fair_cycle_check_cooldowns:
  "fair_cycle_check fcfg wm (state\<lparr>cooldowns := cds\<rparr>) model qg now G
   = (case fair_cycle_check fcfg wm state model qg now G of
        (r, st', G') \<Rightarrow> (r, st'\<lparr>cooldowns := cds\<rparr>, G'))"
  by (simp add: fair_cycle_check_def promote_exhausted_cooldowns Let_def split: prod.splits)

lemma update_from_headers_cooldowns:
  "cooldowns (update_from_headers wm st h model grp now) = cooldowns st"
  by (simp add: update_from_headers_def Let_def split: option.splits)

lemma record_usage_stats_cooldowns:
  "cooldowns (record_usage_stats wm cfg st model update grp now) = cooldowns st"
  by (simp add: record_usage_stats_def Let_def split: option.splits)

lemma record_usage_cooldowns:
  "cooldowns (record_usage wm cfg st model update grp rh now) = cooldowns st"
  by (simp add: record_usage_def Let_def update_from_headers_cooldowns
      record_usage_stats_cooldowns split: option.splits)

lemma fair_cycle_check_frame:
  "cooldowns (fst (snd (fair_cycle_check fcfg wm state model qg now G))) = cooldowns state"
  by (simp add: fair_cycle_check_def promote_exhausted_frame Let_def split: prod.splits)

text \<open>
  Claim C10. The fair-cycle sentinel is \<open>_credential_\<close>, which is not the cooldown
  sentinel \<open>_global_\<close>; in credential tracking mode both key resolvers return it.
  \<open>clear_cooldown\<close> with no scope removes the \<open>_global_\<close> entry of the cooldown map and
  nothing else, and leaves every fair-cycle record alone. The fair-cycle bookkeeping
  (marking exhausted, clearing a record, the fair-cycle check with its in-band promotion)
  never writes the cooldown map and never reads it: run on a state with any other cooldown
  map it does the same and hands that map back. The cooldown check in turn does not
  depend on the fair-cycle records, and \<open>record_usage\<close>, which counts the requests of a
  cycle, leaves the cooldown map as it is.
\<close>

theorem sentinel_namespaces_distinct:
  "FAIR_CYCLE_GLOBAL_KEY = ''_credential_'' \<and> FAIR_CYCLE_GLOBAL_KEY \<noteq> ''_global_''
   \<and> (tracking_mode (fair_cycle_cfg cfg) = CREDENTIAL \<longrightarrow>
        resolve_fair_cycle_key cfg k = ''_credential_''
        \<and> resolve_tracking_key (fair_cycle_cfg cfg) model qg = ''_credential_'')
   \<and> cooldowns (clear_cooldown state None) = (cooldowns state)(''_global_'' := None)
   \<and> fair_cycle (clear_cooldown state None) = fair_cycle state
   \<and> cooldowns (mark_exhausted state key rsn now) = cooldowns state
   \<and> cooldowns (clear_fair_cycle state key) = cooldowns state
   \<and> cooldowns (fst (snd (fair_cycle_check (fair_cycle_cfg cfg) wm state model qg now G)))
       = cooldowns state
   \<and> mark_exhausted (state\<lparr>cooldowns := cds\<rparr>) key rsn now
       = (mark_exhausted state key rsn now)\<lparr>cooldowns := cds\<rparr>
   \<and> clear_fair_cycle (state\<lparr>cooldowns := cds\<rparr>) key
       = (clear_fair_cycle state key)\<lparr>cooldowns := cds\<rparr>
   \<and> fair_cycle_check (fair_cycle_cfg cfg) wm (state\<lparr>cooldowns := cds\<rparr>) model qg now G
       = (case fair_cycle_check (fair_cycle_cfg cfg) wm state model qg now G of
            (r, st', G') \<Rightarrow> (r, st'\<lparr>cooldowns := cds\<rparr>, G'))
   \<and> cooldown_check (state\<lparr>fair_cycle := fcs\<rparr>) model qg now = cooldown_check state model qg now
   \<and> cooldowns (record_usage wm cfg state model update grp response_headers now)
       = cooldowns state"
  by (simp add: FAIR_CYCLE_GLOBAL_KEY_def resolve_fair_cycle_key_def resolve_tracking_key_def
      clear_cooldown_def str_or_def mark_exhausted_def clear_fair_cycle_def
      fair_cycle_check_frame fair_cycle_check_cooldowns cooldown_check_def
      record_usage_cooldowns Let_def split: option.splits)

text \<open>The theorem at the configuration \<open>ex_cfg\<close> switched to credential tracking.\<close>

theorem sentinel_namespaces_distinct_witness:
  "tracking_mode (fair_cycle_cfg (ex_cfg\<lparr>fair_cycle_cfg := ex_fc\<lparr>tracking_mode := CREDENTIAL\<rparr>\<rparr>))
     = CREDENTIAL
   \<and> resolve_fair_cycle_key (ex_cfg\<lparr>fair_cycle_cfg := ex_fc\<lparr>tracking_mode := CREDENTIAL\<rparr>\<rparr>) ''G''
       = ''_credential_''
   \<and> resolve_tracking_key
        (fair_cycle_cfg (ex_cfg\<lparr>fair_cycle_cfg := ex_fc\<lparr>tracking_mode := CREDENTIAL\<rparr>\<rparr>))
        ''m'' (Some ''G'') = ''_credential_''
   \<and> fair_cycle (clear_cooldown ex_cooling None) = fair_cycle ex_cooling
   \<and> cooldowns (clear_cooldown ex_cooling None) ''m'' = Some ex_cooldown"
proof -
  let ?cfg = "ex_cfg\<lparr>fair_cycle_cfg := ex_fc\<lparr>tracking_mode := CREDENTIAL\<rparr>\<rparr>"
  have h: "tracking_mode (fair_cycle_cfg ?cfg) = CREDENTIAL" by simp
  have c: "cooldowns ex_cooling ''m'' = Some ex_cooldown"
    by (simp add: ex_cooling_def CredentialState_new_def)
  from sentinel_namespaces_distinct[of ?cfg "''G''" "''m''" "Some ''G''" ex_cooling] h c
  show ?thesis by simp
qed

subsection \<open>Limit engine\<close>

lemma run_checkers_pure_prefix:
  assumes "FairCycleChecker \<notin> set pre"
      and "\<forall>c' \<in> set pre. allowed (fst (check c' cfg wm state model qg now G))"
  shows "run_checkers (pre @ rest) cfg wm state model qg now G
         = run_checkers rest cfg wm state model qg now G"
  using assms
proof (induction pre)
  case Nil
  then show ?case by simp
next
  case (Cons c pre)
  then show ?case by (cases c) auto
qed

lemma run_checkers_blocked_head:
  "\<not> allowed (fst (check c cfg wm state model qg now G)) \<Longrightarrow>
   run_checkers (c # post) cfg wm state model qg now G = check c cfg wm state model qg now G"
  by (cases "check c cfg wm state model qg now G") simp

lemma checkers_prefix_pure:
  "checkers cfg = pre @ c # post \<Longrightarrow> FairCycleChecker \<notin> set pre"
  by (auto simp: checkers_def append_eq_Cons_conv Cons_eq_append_conv split: if_splits)

text \<open>
  Claim C1. The checkers stand in the order concurrent, cooldowns, window limits (only
  when \<open>window_limits_enabled\<close>), custom caps, fair cycle. Whenever a checker of that list
  blocks and every checker before it allows, \<open>check_all\<close> returns what that checker
  returns, result and effects: no checker after it has run, whatever it would have said.
\<close>

theorem check_all_first_blocker_wins:
  "checkers cfg =
     (if window_limits_enabled cfg
      then [ConcurrentLimitChecker, CooldownChecker, WindowLimitChecker, CustomCapChecker,
            FairCycleChecker]
      else [ConcurrentLimitChecker, CooldownChecker, CustomCapChecker, FairCycleChecker])
   \<and> (\<forall>pre c post.
         checkers cfg = pre @ c # post
         \<and> (\<forall>c' \<in> set pre. allowed (fst (check c' cfg wm state model qg now G)))
         \<and> \<not> allowed (fst (check c cfg wm state model qg now G))
         \<longrightarrow> check_all cfg wm state model qg now G = check c cfg wm state model qg now G)"
proof (intro conjI allI impI)
  show "checkers cfg =
     (if window_limits_enabled cfg
      then [ConcurrentLimitChecker, CooldownChecker, WindowLimitChecker, CustomCapChecker,
            FairCycleChecker]
      else [ConcurrentLimitChecker, CooldownChecker, CustomCapChecker, FairCycleChecker])"
    by (simp add: checkers_def)
next
  fix pre c post
  assume h: "checkers cfg = pre @ c # post
         \<and> (\<forall>c' \<in> set pre. allowed (fst (check c' cfg wm state model qg now G)))
         \<and> \<not> allowed (fst (check c cfg wm state model qg now G))"
  then have pure: "FairCycleChecker \<notin> set pre" using checkers_prefix_pure by blast
  have "check_all cfg wm state model qg now G
        = run_checkers (pre @ c # post) cfg wm state model qg now G"
    using h by (simp add: check_all_def)
  also have "\<dots> = run_checkers (c # post) cfg wm state model qg now G"
    using run_checkers_pure_prefix[OF pure] h by blast
  also have "\<dots> = check c cfg wm state model qg now G"
    using run_checkers_blocked_head h by blast
  finally show "check_all cfg wm state model qg now G = check c cfg wm state model qg now G" .
qed

text \<open>
  The theorem at the credential \<open>ex_cooling\<close>, which the cooldown checker and the
  fair-cycle checker both block: the result is the cooldown checker's.
\<close>

theorem check_all_first_blocker_wins_witness:
  "checkers ex_cfg = [ConcurrentLimitChecker] @ CooldownChecker # [CustomCapChecker, FairCycleChecker]
   \<and> allowed (fst (check ConcurrentLimitChecker ex_cfg ex_wm ex_cooling ''m'' None 50 Map.empty))
   \<and> \<not> allowed (fst (check CooldownChecker ex_cfg ex_wm ex_cooling ''m'' None 50 Map.empty))
   \<and> \<not> allowed (fst (check FairCycleChecker ex_cfg ex_wm ex_cooling ''m'' None 50 Map.empty))
   \<and> check_all ex_cfg ex_wm ex_cooling ''m'' None 50 Map.empty
       = (blocked BLOCKED_COOLDOWN (CooldownFor ''m'' ''rate_limit'' 50) (Some 100),
          ex_cooling, Map.empty)"
proof -
  have t1: "checkers ex_cfg
            = [ConcurrentLimitChecker] @ CooldownChecker # [CustomCapChecker, FairCycleChecker]"
    by (simp add: checkers_def ex_cfg_def)
  have t2: "allowed (fst (check ConcurrentLimitChecker ex_cfg ex_wm ex_cooling ''m'' None 50
                            Map.empty))"
    by (simp add: concurrent_check_def ex_cooling_def CredentialState_new_def ok_def)
  have t3: "check CooldownChecker ex_cfg ex_wm ex_cooling ''m'' None 50 Map.empty
            = (blocked BLOCKED_COOLDOWN (CooldownFor ''m'' ''rate_limit'' 50) (Some 100),
               ex_cooling, Map.empty)"
    by (simp add: cooldown_check_def keys_to_check_def str_or_def truthy_def ex_cooling_def
        CredentialState_new_def ex_cooldown_def remaining_seconds_def)
  have t4: "\<not> allowed (fst (check FairCycleChecker ex_cfg ex_wm ex_cooling ''m'' None 50
                              Map.empty))"
    by (simp add: fair_cycle_check_def ex_cfg_def ex_fc_def fc_enabled_def
        resolve_tracking_key_def str_or_def promote_exhausted_def ex_cooling_def
        CredentialState_new_def FairCycleState_new_def is_fair_cycle_exhausted_def
        get_global_state_def should_reset_cycle_def blocked_def Let_def)
  have t5: "\<not> allowed (fst (check CooldownChecker ex_cfg ex_wm ex_cooling ''m'' None 50
                              Map.empty))"
    unfolding t3 by (simp add: blocked_def)
  have pre: "\<forall>c' \<in> set [ConcurrentLimitChecker].
               allowed (fst (check c' ex_cfg ex_wm ex_cooling ''m'' None 50 Map.empty))"
    using t2 by simp
  from check_all_first_blocker_wins[of ex_cfg ex_wm ex_cooling "''m''" None 50 Map.empty]
  have "check_all ex_cfg ex_wm ex_cooling ''m'' None 50 Map.empty
        = check CooldownChecker ex_cfg ex_wm ex_cooling ''m'' None 50 Map.empty"
    using t1 pre t5 by blast
  then show ?thesis
    using t1 t2 t4 t5 by (simp only: t3) simp
qed

subsection \<open>Custom caps\<close>

text \<open>
  Claim C7 as stated fails: the effective maximum is clamped at zero, so a window limit
  of 100 with the offset \<open>-130\<close> gives 0, not \<open>100 + (-130)\<close>.
\<close>

theorem resolve_max_requests_offset_counterexample:
  "max_requests_mode (ex_cap\<lparr>max_requests := - 130\<rparr>) = OFFSET
   \<and> resolve_max_requests (ex_cap\<lparr>max_requests := - 130\<rparr>) (Some 100) = 0
   \<and> resolve_max_requests (ex_cap\<lparr>max_requests := - 130\<rparr>) (Some 100)
       \<noteq> 100 + max_requests (ex_cap\<lparr>max_requests := - 130\<rparr>)"
  by (simp add: resolve_max_requests_def ex_cap_def)

text \<open>
  Claim C7, as the code has it. The effective maximum is never negative: in ABSOLUTE
  mode it is \<open>max_requests\<close>, in OFFSET mode the window limit plus \<open>max_requests\<close> when
  the limit is known and \<open>|max_requests|\<close> when it is not, in PERCENTAGE mode that
  percentage of the limit, truncated to an integer, and 1000 when the limit is unknown;
  the first three are replaced by 0 when negative. When the scope has stats and an active
  primary window, the cap blocks with \<open>BLOCKED_CUSTOM_CAP\<close> exactly when the window's
  \<open>request_count\<close> has reached the effective maximum, and in QUOTA_RESET mode
  \<open>blocked_until\<close> is the window's \<open>reset_at\<close>.
\<close>

theorem custom_cap_effective_maximum:
  "resolve_max_requests cap window_limit =
     (case max_requests_mode cap of
        ABSOLUTE \<Rightarrow> max 0 (max_requests cap)
      | OFFSET \<Rightarrow> (case window_limit of
                     Some l \<Rightarrow> max 0 (l + max_requests cap)
                   | None \<Rightarrow> \<bar>max_requests cap\<bar>)
      | PERCENTAGE \<Rightarrow> (case window_limit of
                         Some l \<Rightarrow> max 0 (py_int (real_of_int (l * max_requests cap) / 100))
                       | None \<Rightarrow> 1000))
   \<and> ((case scope of SCOPE_GROUP \<Rightarrow> group_windows_of state scope_key
                     | SCOPE_MODEL \<Rightarrow> model_windows_of state scope_key) = Some wins
        \<and> get_primary_window wm wins now = Some pw
        \<longrightarrow> (if request_count pw \<ge> resolve_max_requests cap (limit pw)
             then \<not> allowed (check_single_cap wm state cap scope scope_key now)
                  \<and> result (check_single_cap wm state cap scope scope_key now) = BLOCKED_CUSTOM_CAP
                  \<and> (cooldown_mode cap = QUOTA_RESET \<longrightarrow>
                       blocked_until (check_single_cap wm state cap scope scope_key now)
                       = reset_at pw)
             else check_single_cap wm state cap scope scope_key now = ok))"
  by (auto simp: resolve_max_requests_def check_single_cap_def blocked_def
      calculate_cooldown_until_def Let_def
      split: CapMode.splits option.splits cap_scope.splits)

text \<open>
  The theorem at scenario S4: limit 200 and the cap \<open>-50\<close> give 150; with 149 requests
  counted the credential is allowed, with 150 counted the next request, the 151st, is
  blocked until the window's reset time 19000.
\<close>

theorem custom_cap_effective_maximum_witness:
  "group_windows_of (ex_capped 150) ''G'' = Some [(''5h'', ex_window 150)]
   \<and> get_primary_window ex_wm [(''5h'', ex_window 150)] 2000 = Some (ex_window 150)
   \<and> cooldown_mode ex_cap = QUOTA_RESET
   \<and> resolve_max_requests ex_cap (limit (ex_window 150)) = 150
   \<and> request_count (ex_window 150) = 150
   \<and> \<not> allowed (check_single_cap ex_wm (ex_capped 150) ex_cap SCOPE_GROUP ''G'' 2000)
   \<and> result (check_single_cap ex_wm (ex_capped 150) ex_cap SCOPE_GROUP ''G'' 2000)
       = BLOCKED_CUSTOM_CAP
   \<and> blocked_until (check_single_cap ex_wm (ex_capped 150) ex_cap SCOPE_GROUP ''G'' 2000)
       = Some 19000
   \<and> check_single_cap ex_wm (ex_capped 149) ex_cap SCOPE_GROUP ''G'' 2000 = ok"
proof -
  have w: "group_windows_of (ex_capped n) ''G'' = Some [(''5h'', ex_window n)]" for n
    by (simp add: group_windows_of_def ex_capped_def CredentialState_new_def)
  have p: "get_primary_window ex_wm [(''5h'', ex_window n)] 2000 = Some (ex_window n)" for n
    by (simp add: get_primary_window_def ex_wm_def ex_def_def get_active_window_def
        should_reset_def ex_window_def WindowStats_new_def)
  have q: "cooldown_mode ex_cap = QUOTA_RESET" by (simp add: ex_cap_def)
  have r: "resolve_max_requests ex_cap (limit (ex_window n)) = 150" for n
    by (simp add: resolve_max_requests_def ex_cap_def ex_window_def WindowStats_new_def)
  have c: "request_count (ex_window n) = n" "reset_at (ex_window n) = Some 19000" for n
    by (simp_all add: ex_window_def WindowStats_new_def)
  from custom_cap_effective_maximum[where cap = ex_cap and window_limit = "Some 200"
      and scope = SCOPE_GROUP and state = "ex_capped 150" and scope_key = "''G''"
      and wins = "[(''5h'', ex_window 150)]" and wm = ex_wm and now = 2000
      and pw = "ex_window 150"]
  have a: "\<not> allowed (check_single_cap ex_wm (ex_capped 150) ex_cap SCOPE_GROUP ''G'' 2000)
       \<and> result (check_single_cap ex_wm (ex_capped 150) ex_cap SCOPE_GROUP ''G'' 2000)
           = BLOCKED_CUSTOM_CAP
       \<and> blocked_until (check_single_cap ex_wm (ex_capped 150) ex_cap SCOPE_GROUP ''G'' 2000)
           = Some 19000"
    using w p q by (simp add: r c)
  from custom_cap_effective_maximum[where cap = ex_cap and window_limit = "Some 200"
      and scope = SCOPE_GROUP and state = "ex_capped 149" and scope_key = "''G''"
      and wins = "[(''5h'', ex_window 149)]" and wm = ex_wm and now = 2000
      and pw = "ex_window 149"]
  have b: "check_single_cap ex_wm (ex_capped 149) ex_cap SCOPE_GROUP ''G'' 2000 = ok"
    using w p by (simp add: r c)
  show ?thesis
    using a b w p q r c by simp
qed

subsection \<open>Balanced strategy\<close>

text \<open>
  Claim C8 at tolerance 0. Two candidates of one tier, \<open>a\<close> used 0 times and \<open>b\<close> used 5
  times, get the weights 6 and 1: the \<open>+ 1\<close> of the formula keeps the most used
  candidate in the draw. A draw of 6.5 out of the total 7 returns \<open>b\<close>, which is not a
  least-used candidate.
\<close>

theorem balanced_select_tolerance_zero:
  "calculate_weights 0 [''a'', ''b''] [''a'' \<mapsto> 0, ''b'' \<mapsto> 5] = [6, 1]
   \<and> balanced_select \<lparr>uniform01 = (\<lambda>k. 13 / 14), choice_index = (\<lambda>k. 0)\<rparr> 0
        \<lparr>ctx_provider = ''prov'', ctx_model = ''m'', ctx_quota_group = None,
         candidates = [''a'', ''b''], priorities = [''a'' \<mapsto> 1, ''b'' \<mapsto> 1],
         usage_counts = [''a'' \<mapsto> 0, ''b'' \<mapsto> 5], ctx_rotation_mode = BALANCED,
         ctx_rotation_tolerance = 0, deadline = 120\<rparr> = Some ''b''"
  by (simp add: balanced_select_def priority_of_def calculate_weights_def
      weighted_random_choice_def)

subsection \<open>Selection engine: the result is a candidate\<close>

lemma weighted_loop_in:
  "weighted_loop r c zs = Some x \<Longrightarrow> x \<in> fst ` set zs"
  by (induction r c zs rule: weighted_loop.induct) (auto split: if_splits)

lemma weighted_random_choice_in:
  assumes "weighted_random_choice cands ws u idx = Some x"
  shows "x \<in> set cands"
proof (cases cands)
  case Nil
  with assms show ?thesis by (simp add: weighted_random_choice_def)
next
  case (Cons c cs)
  note outer = Cons
  show ?thesis
  proof (cases cs)
    case Nil
    with assms outer show ?thesis by (simp add: weighted_random_choice_def)
  next
    case (Cons d ds)
    have ne: "cands \<noteq> []" using outer by simp
    have idx: "cands ! (idx mod length cands) \<in> set cands"
      using ne by simp
    have lst: "last cands \<in> set cands" using ne by simp
    have zl: "\<And>y. weighted_loop (sum_list ws * u) 0 (zip cands ws) = Some y \<Longrightarrow> y \<in> set cands"
      using weighted_loop_in set_zip_leftD by fastforce
    from assms show ?thesis
      unfolding weighted_random_choice_def outer Cons
      using idx lst zl unfolding outer Cons
      by (auto simp: Let_def split: if_splits option.splits)
  qed
qed

lemma balanced_loop_in:
  "balanced_loop rnd tol ctx k ps = Some x \<Longrightarrow> x \<in> set (candidates ctx)"
proof (induction ps arbitrary: k)
  case Nil
  then show ?case by simp
next
  case (Cons p ps)
  then show ?case
    by (auto simp: Let_def split: option.splits if_splits dest!: weighted_random_choice_in)
qed

lemma balanced_select_in:
  "balanced_select rnd tol ctx = Some x \<Longrightarrow> x \<in> set (candidates ctx)"
  by (auto simp: balanced_select_def split: list.splits option.splits dest: balanced_loop_in)

lemma select_by_priority_in:
  "select_by_priority cands prio usage states = Some x \<Longrightarrow> x \<in> set cands"
proof -
  assume a: "select_by_priority cands prio usage states = Some x"
  then obtain rest where "sort_key (seq_sort_key prio usage states) cands = x # rest"
    by (auto simp: select_by_priority_def split: list.splits)
  then have "x \<in> set (sort_key (seq_sort_key prio usage states) cands)" by simp
  then show ?thesis by simp
qed

lemma sequential_select_in:
  "sequential_select cur ctx states = (Some x, cur') \<Longrightarrow> x \<in> set (candidates ctx)"
  by (auto simp: sequential_select_def Let_def split: list.splits option.splits if_splits
      dest: select_by_priority_in)

lemma apply_strategy_in:
  "apply_strategy cfg rnd ctx states cur = (Some x, cur') \<Longrightarrow> x \<in> set (candidates ctx)"
  by (auto simp: apply_strategy_def split: if_splits dest: sequential_select_in balanced_select_in)

lemma filter_available_keys:
  "filter_available cfg wm model qg now cands G = (av, cands', G') \<Longrightarrow>
   set av \<subseteq> fst ` set cands \<and> map fst cands' = map fst cands"
proof (induction cands arbitrary: G av cands' G')
  case Nil
  then show ?case by simp
next
  case (Cons a cands)
  obtain sid st where a: "a = (sid, st)" by (cases a)
  obtain res st' G1 where c: "check_all cfg wm st model qg now G = (res, st', G1)"
    by (cases "check_all cfg wm st model qg now G")
  obtain av2 rest' G2 where f: "filter_available cfg wm model qg now cands G1 = (av2, rest', G2)"
    by (cases "filter_available cfg wm model qg now cands G1")
  from Cons.IH[OF f] Cons.prems show ?case
    by (auto simp: a c f split: if_splits)
qed

lemma count_fair_cycle_blocked_keys:
  "count_fair_cycle_blocked cfg wm model qg now cands G = (cnt, cands', G') \<Longrightarrow>
   map fst cands' = map fst cands"
proof (induction cands arbitrary: G cnt cands' G')
  case Nil
  then show ?case by simp
next
  case (Cons a cands)
  obtain sid st where a: "a = (sid, st)" by (cases a)
  obtain res st' G1 where c: "check_all cfg wm st model qg now G = (res, st', G1)"
    by (cases "check_all cfg wm st model qg now G")
  obtain cnt2 rest' G2 where f:
    "count_fair_cycle_blocked cfg wm model qg now cands G1 = (cnt2, rest', G2)"
    by (cases "count_fair_cycle_blocked cfg wm model qg now cands G1")
  from Cons.IH[OF f] Cons.prems show ?case
    by (auto simp: a c f split: if_splits)
qed

lemma reset_cycle_keys:
  "map fst (fst (reset_cycle prov key member cands now G)) = map fst cands"
  by (induction cands) (auto simp: reset_cycle_def)

lemma reset_tiers_keys:
  "reset_tiers fcfg prov tk gk now ps cands G = (b, cands', G') \<Longrightarrow> map fst cands' = map fst cands"
proof (induction ps arbitrary: cands G b cands' G')
  case Nil
  then show ?case by simp
next
  case (Cons p ps)
  show ?case
  proof (cases "list_all (\<lambda>state. is_fair_cycle_exhausted state tk)
                  (filter (\<lambda>state. priority state = p) (map snd cands))
                \<and> \<not> fst (get_shortest_cooldown fcfg
                           (filter (\<lambda>state. priority state = p) (map snd cands)) gk now)")
    case True
    obtain c1 G1 where r: "reset_cycle prov tk (\<lambda>state. priority state = p) cands now G = (c1, G1)"
      by (cases "reset_cycle prov tk (\<lambda>state. priority state = p) cands now G")
    obtain b2 c2 G2 where t: "reset_tiers fcfg prov tk gk now ps c1 G1 = (b2, c2, G2)"
      by (cases "reset_tiers fcfg prov tk gk now ps c1 G1")
    have k1: "map fst c1 = map fst cands" using reset_cycle_keys[of prov tk _ cands now G] r
      by (metis fst_conv)
    from Cons.IH[OF t] Cons.prems True k1 show ?thesis
      by (simp add: r t Let_def)
  next
    case False
    with Cons.prems have "reset_tiers fcfg prov tk gk now ps cands G = (b, cands', G')"
      by (auto simp: Let_def)
    from Cons.IH[OF this] show ?thesis .
  qed
qed

lemma try_fair_cycle_reset_keys:
  assumes "try_fair_cycle_reset cfg wm prov model qg now cands G = (b, cands', G')"
  shows "map fst cands' = map fst cands"
proof -
  obtain cnt c1 G1 where c: "count_fair_cycle_blocked cfg wm model qg now cands G = (cnt, c1, G1)"
    by (cases "count_fair_cycle_blocked cfg wm model qg now cands G")
  have k1: "map fst c1 = map fst cands" using count_fair_cycle_blocked_keys[OF c] .
  have rk: "\<And>m. map fst (fst (reset_cycle prov (resolve_tracking_key (fair_cycle_cfg cfg) model qg)
                m c1 now G1)) = map fst c1"
    by (rule reset_cycle_keys)
  from assms show ?thesis
    unfolding try_fair_cycle_reset_def c Let_def
    using k1 rk reset_tiers_keys
    by (auto split: option.splits if_splits prod.splits) (metis fst_conv)+
qed

lemma select_candidates_in:
  "select_candidates fuel cfg wm rnd prov model cands qg prio dl now es = Some (Some sid, cands', es')
   \<Longrightarrow> sid \<in> fst ` set cands"
proof (induction fuel arbitrary: cands es)
  case 0
  then show ?case by simp
next
  case (Suc fuel)
  show ?case
  proof (cases "cands = []")
    case True
    with Suc.prems show ?thesis by simp
  next
    case False
    obtain av c1 G1 where f: "filter_available cfg wm model qg now cands (global_state es) = (av, c1, G1)"
      by (cases "filter_available cfg wm model qg now cands (global_state es)")
    note fk = filter_available_keys[OF f]
    show ?thesis
    proof (cases "av = []")
      case True
      note avnil = True
      show ?thesis
      proof (cases "fc_enabled (fair_cycle_cfg cfg)")
        case True
        obtain b c2 G2 where t: "try_fair_cycle_reset cfg wm prov model qg now c1 G1 = (b, c2, G2)"
          by (cases "try_fair_cycle_reset cfg wm prov model qg now c1 G1")
        have k2: "map fst c2 = map fst cands"
          using try_fair_cycle_reset_keys[OF t] fk by simp
        show ?thesis
        proof (cases b)
          case True
          with Suc.prems False f avnil \<open>fc_enabled (fair_cycle_cfg cfg)\<close> t
          have "select_candidates fuel cfg wm rnd prov model c2 qg prio dl now
                  (es\<lparr>global_state := G2\<rparr>) = Some (Some sid, cands', es')"
            by simp
          from Suc.IH[OF this] have "sid \<in> set (map fst c2)" by simp
          then show ?thesis unfolding k2 by simp
        next
          case False
          with Suc.prems \<open>cands \<noteq> []\<close> f avnil \<open>fc_enabled (fair_cycle_cfg cfg)\<close> t
          show ?thesis by simp
        qed
      next
        case False
        with Suc.prems \<open>cands \<noteq> []\<close> f avnil show ?thesis by simp
      qed
    next
      case False
      with Suc.prems \<open>cands \<noteq> []\<close> f
      obtain cur' where
        "apply_strategy cfg rnd (build_context cfg wm prov model qg prio dl now av (map_of c1))
           (map_of c1) (current es) = (Some sid, cur')"
        by (auto simp: Let_def split: prod.splits)
      from apply_strategy_in[OF this] fk show ?thesis
        by (auto simp: build_context_def)
    qed
  qed
qed


text \<open>
  Claim C9. Whatever the rotation mode and the random draws, a stable id returned by
  \<open>select\<close> called with the exclude set \<open>E\<close> is not in \<open>E\<close>; it is an id of \<open>states\<close>.
\<close>

theorem select_excludes_tried:
  assumes "select fuel cfg wm rnd prov model states qg (Some E) prio dl now es
           = Some (Some sid, states', es')"
  shows "sid \<notin> E \<and> sid \<in> fst ` set states"
proof -
  from assms obtain cands' where
    "select_candidates fuel cfg wm rnd prov model (filter (\<lambda>(sid, state). sid \<notin> E) states)
       qg prio dl now es = Some (Some sid, cands', es')"
    by (auto simp: select_def Let_def split: option.splits)
  from select_candidates_in[OF this] show ?thesis by auto
qed


text \<open>
  The theorem at a pool of two credentials with \<open>a\<close> excluded: the unused credential \<open>b\<close>
  is returned.
\<close>

theorem select_excludes_tried_witness:
  "select 1 ex_cfg ex_wm ex_rnd ''prov'' ''m'' [(''a'', ex_cooled 1900), (''b'', ex_fresh)] None
     (Some {''a''}) None 0 1000 ex_es
   = Some (Some ''b'', [(''a'', ex_cooled 1900), (''b'', ex_fresh)], ex_es)
   \<and> ''b'' \<notin> {''a''}
   \<and> ''b'' \<in> fst ` set [(''a'', ex_cooled 1900), (''b'', ex_fresh)]"
proof -
  have s999: "str_int 999 = ''999''"
    by (simp add: str_int_def str_nat.simps digit_char_def)
  have b: "check_all ex_cfg ex_wm ex_fresh ''m'' None 1000 G = (ok, ex_fresh, G)" for G
    by (simp add: check_all_def checkers_def ex_cfg_def concurrent_check_def ex_fresh_def
        CredentialState_new_def cooldown_check_def keys_to_check_def str_or_def truthy_def
        ok_def custom_cap_check_def get_primary_definition_def ex_wm_def ex_def_def
        find_all_caps_def s999 cap_index_def ex_cap_def cap_or_def fair_cycle_check_def
        ex_fc_def fc_enabled_def resolve_tracking_key_def promote_exhausted_def
        is_fair_cycle_exhausted_def Let_def)
  have e: "select 1 ex_cfg ex_wm ex_rnd ''prov'' ''m'' [(''a'', ex_cooled 1900), (''b'', ex_fresh)]
             None (Some {''a''}) None 0 1000 ex_es
           = Some (Some ''b'', [(''a'', ex_cooled 1900), (''b'', ex_fresh)], ex_es)"
  proof -
    have rm: "rotation_mode ex_cfg = BALANCED" by (simp add: ex_cfg_def)
    show ?thesis
      by (simp add: select_def b ok_def build_context_def apply_strategy_def rm
          balanced_select_def ex_es_def)
  qed
  from select_excludes_tried[OF e] e show ?thesis by simp
qed

subsection \<open>Selection engine: the fair-cycle reset\<close>

subsubsection \<open>check_all splits into the earlier checkers and the fair cycle\<close>

lemma run_checkers_pure:
  "FairCycleChecker \<notin> set cs \<Longrightarrow>
   run_checkers cs cfg wm st model qg now G
   = (fst (run_checkers cs cfg wm st model qg now Map.empty), st, G)"
proof (induction cs)
  case Nil
  then show ?case by simp
next
  case (Cons c cs)
  then show ?case by (cases c) (auto simp: Let_def)
qed


lemma earlier_pure: "FairCycleChecker \<notin> set (earlier_checkers cfg)"
  by (simp add: earlier_checkers_def)




subsubsection \<open>The shortest cooldown\<close>





subsubsection \<open>An exhausted credential while the timer runs\<close>





subsubsection \<open>The earlier checkers do not read the fair-cycle records\<close>

lemma windows_of_fair_cycle [simp]:
  "group_windows_of (st\<lparr>fair_cycle := f\<rparr>) g = group_windows_of st g"
  "model_windows_of (st\<lparr>fair_cycle := f\<rparr>) m = model_windows_of st m"
  by (simp_all add: group_windows_of_def model_windows_of_def)

lemma window_limit_loop_fair_cycle [simp]:
  "window_limit_loop wm (st\<lparr>fair_cycle := f\<rparr>) model gk now ds = window_limit_loop wm st model gk now ds"
  by (induction ds) (simp_all cong: option.case_cong if_cong)

lemma check_single_cap_fair_cycle [simp]:
  "check_single_cap wm (st\<lparr>fair_cycle := f\<rparr>) cap scope sk now = check_single_cap wm st cap scope sk now"
  by (simp add: check_single_cap_def cong: option.case_cong cap_scope.case_cong)

lemma check_caps_loop_fair_cycle [simp]:
  "check_caps_loop wm (st\<lparr>fair_cycle := f\<rparr>) now cs = check_caps_loop wm st now cs"
  by (induction cs) (auto simp: Let_def)

lemma pure_checks_fair_cycle [simp]:
  "concurrent_check (st\<lparr>fair_cycle := f\<rparr>) = concurrent_check st"
  "cooldown_check (st\<lparr>fair_cycle := f\<rparr>) model qg now = cooldown_check st model qg now"
  "window_limit_check wm (st\<lparr>fair_cycle := f\<rparr>) model qg now = window_limit_check wm st model qg now"
  "custom_cap_check caps wm (st\<lparr>fair_cycle := f\<rparr>) model qg now = custom_cap_check caps wm st model qg now"
  by (simp_all add: concurrent_check_def cooldown_check_def window_limit_check_def
      custom_cap_check_def cong: option.case_cong if_cong)

lemma run_earlier_fair_cycle:
  "FairCycleChecker \<notin> set cs \<Longrightarrow>
   fst (run_checkers cs cfg wm (st\<lparr>fair_cycle := f\<rparr>) model qg now G)
   = fst (run_checkers cs cfg wm st model qg now G)"
proof (induction cs)
  case Nil
  then show ?case by simp
next
  case (Cons c cs)
  then show ?case
    by (cases c) (auto simp: Let_def)
qed

lemma passes_earlier_fair_cycle [simp]:
  "passes_earlier cfg wm (st\<lparr>fair_cycle := f\<rparr>) model qg now = passes_earlier cfg wm st model qg now"
  by (simp add: passes_earlier_def run_earlier_fair_cycle[OF earlier_pure])

lemma get_quota_limit_fair_cycle [simp]:
  "get_quota_limit wm (st\<lparr>fair_cycle := f\<rparr>) model qg now = get_quota_limit wm st model qg now"
  by (simp add: get_quota_limit_def cong: option.case_cong if_cong)





subsubsection \<open>Loops over an exhausted pool\<close>



subsubsection \<open>The per-tier loop\<close>







subsubsection \<open>A strategy picks some candidate\<close>

lemma weighted_random_choice_some:
  "cands \<noteq> [] \<Longrightarrow> \<exists>x. weighted_random_choice cands ws u idx = Some x"
  by (auto simp: weighted_random_choice_def Let_def split: list.splits option.splits)



















end
